theory Spec2Isabelle
  imports
    Main
    "HOL-Library.Sublist"
    "HOL-Library.AList"
    "HOL-Library.Char_ord"
    "HOL-Library.List_Lexorder"
begin

section \<open>Python strings and lists\<close>

text \<open>
  Strings are byte lists. The character classes below are the ASCII part of Python's
  \<^verbatim>\<open>str.isspace\<close>, \<^verbatim>\<open>str.lower\<close>, \<^verbatim>\<open>str.upper\<close> and of the
  regular-expression classes \<^verbatim>\<open>\s\<close> and \<^verbatim>\<open>\d\<close>; bytes above 127 are neither
  space, digit nor letter here.
\<close>

definition whitespace :: "char list" where
  "whitespace = [CHR '' '', CHR 0x09, CHR 0x0A, CHR 0x0B, CHR 0x0C, CHR 0x0D,
                 CHR 0x1C, CHR 0x1D, CHR 0x1E, CHR 0x1F]"

definition is_space :: "char \<Rightarrow> bool" where
  "is_space c = (c \<in> set whitespace)"

definition is_digit :: "char \<Rightarrow> bool" where
  "is_digit c = (c \<in> set ''0123456789'')"

definition ascii_uppercase :: string where
  "ascii_uppercase = ''ABCDEFGHIJKLMNOPQRSTUVWXYZ''"

definition ascii_lowercase :: string where
  "ascii_lowercase = ''abcdefghijklmnopqrstuvwxyz''"

definition lower_char :: "char \<Rightarrow> char" where
  "lower_char c = (case map_of (zip ascii_uppercase ascii_lowercase) c of
                     Some d \<Rightarrow> d | None \<Rightarrow> c)"

definition upper_char :: "char \<Rightarrow> char" where
  "upper_char c = (case map_of (zip ascii_lowercase ascii_uppercase) c of
                     Some d \<Rightarrow> d | None \<Rightarrow> c)"

definition lower :: "string \<Rightarrow> string" where
  "lower s = map lower_char s"

definition upper :: "string \<Rightarrow> string" where
  "upper s = map upper_char s"

text \<open>\<^verbatim>\<open>s.strip()\<close>: leading and trailing whitespace removed.\<close>

definition lstrip :: "string \<Rightarrow> string" where
  "lstrip s = dropWhile is_space s"

definition rstrip :: "string \<Rightarrow> string" where
  "rstrip s = rev (dropWhile is_space (rev s))"

definition strip :: "string \<Rightarrow> string" where
  "strip s = rstrip (lstrip s)"

text \<open>\<^verbatim>\<open>sub in s\<close>, \<^verbatim>\<open>s.startswith(p)\<close>, \<^verbatim>\<open>s.endswith(p)\<close>.\<close>

definition py_in :: "string \<Rightarrow> string \<Rightarrow> bool" where
  "py_in sub s = sublist sub s"

definition startswith :: "string \<Rightarrow> string \<Rightarrow> bool" where
  "startswith s p = prefix p s"

definition endswith :: "string \<Rightarrow> string \<Rightarrow> bool" where
  "endswith s p = suffix p s"

text \<open>\<^verbatim>\<open>s.split()\<close>: the maximal runs of non-whitespace characters, in order.\<close>

fun split_from :: "string \<Rightarrow> string \<Rightarrow> string list" where
  "split_from cur [] = (if cur = [] then [] else [cur])"
| "split_from cur (c # cs) =
     (if is_space c then (if cur = [] then split_from [] cs else cur # split_from [] cs)
      else split_from (cur @ [c]) cs)"

definition split :: "string \<Rightarrow> string list" where
  "split s = split_from [] s"

text \<open>
  \<^verbatim>\<open>s.replace(old, new)\<close>: the non-overlapping occurrences of \<open>old\<close> are replaced from
  left to right, compared character by character (case-sensitively); an empty \<open>old\<close>
  matches before every character and at the end.
\<close>

function py_replace :: "string \<Rightarrow> string \<Rightarrow> string \<Rightarrow> string" where
  "py_replace old new [] = (if old = [] then new else [])"
| "py_replace old new (c # cs) =
     (if old = [] then new @ c # py_replace old new cs
      else if prefix old (c # cs) then new @ py_replace old new (drop (length old) (c # cs))
      else c # py_replace old new cs)"
  by pat_completeness auto
termination
  by (relation "measure (\<lambda>(old, new, s). length s)") auto

text \<open>\<^verbatim>\<open>sep.join(parts)\<close>.\<close>

fun join :: "string \<Rightarrow> string list \<Rightarrow> string" where
  "join sep [] = []"
| "join sep [x] = x"
| "join sep (x # y # ys) = x @ sep @ join sep (y # ys)"

text \<open>\<^verbatim>\<open>xs[i:]\<close> for a Python integer \<open>i\<close>: a negative index counts from the end, and
  an index beyond either end is clamped.\<close>

definition slice_from :: "int \<Rightarrow> 'a list \<Rightarrow> 'a list" where
  "slice_from i xs =
     (let n = int (length xs);
          j = (if i < 0 then max (n + i) 0 else min i n)
      in drop (nat j) xs)"

text \<open>\<^verbatim>\<open>str(n)\<close> for integers.\<close>

fun str_nat :: "nat \<Rightarrow> string" where
  "str_nat n = (if n < 10 then [''0123456789'' ! n]
                else str_nat (n div 10) @ [''0123456789'' ! (n mod 10)])"

definition str_int :: "int \<Rightarrow> string" where
  "str_int i = (if i < 0 then CHR ''-'' # str_nat (nat (- i)) else str_nat (nat i))"

text \<open>\<^verbatim>\<open>repr(s)\<close> of a string: single quotes unless the string has a single and no
  double quote; backslash, the chosen quote and control characters are escaped.\<close>

definition hex_digits :: string where
  "hex_digits = ''0123456789abcdef''"

definition repr_char :: "char \<Rightarrow> char \<Rightarrow> string" where
  "repr_char q c =
     (if c = CHR 0x5C then [CHR 0x5C, CHR 0x5C]
      else if c = q then [CHR 0x5C, q]
      else if c = CHR 0x0A then [CHR 0x5C, CHR ''n'']
      else if c = CHR 0x0D then [CHR 0x5C, CHR ''r'']
      else if c = CHR 0x09 then [CHR 0x5C, CHR ''t'']
      else if (of_char c :: nat) < 32 \<or> (of_char c :: nat) = 127
        then [CHR 0x5C, CHR ''x'', hex_digits ! ((of_char c :: nat) div 16),
              hex_digits ! ((of_char c :: nat) mod 16)]
      else [c])"

definition repr_str :: "string \<Rightarrow> string" where
  "repr_str s =
     (let q = (if CHR 0x27 \<in> set s \<and> CHR 0x22 \<notin> set s then CHR 0x22 else CHR 0x27)
      in q # concat (map (repr_char q) s) @ [q])"

text \<open>\<^verbatim>\<open>max(xs, key=f)\<close> on a non-empty sequence: the first element with the largest
  key. The argument \<open>best\<close> is the maximum so far.\<close>

fun max_by :: "('a \<Rightarrow> 'k::linorder) \<Rightarrow> 'a \<Rightarrow> 'a list \<Rightarrow> 'a" where
  "max_by key best [] = best"
| "max_by key best (x # xs) = max_by key (if key best < key x then x else best) xs"

section \<open>Python literals\<close>

text \<open>
  The values \<^verbatim>\<open>ast.literal_eval\<close> can return. \<open>PyOther s r\<close> stands for a value of
  any other literal type (float, bytes, dict, set, complex) with \<^verbatim>\<open>str\<close> form \<open>s\<close>
  and \<^verbatim>\<open>repr\<close> form \<open>r\<close>.
\<close>

datatype pyval =
    PyNone
  | PyBool bool
  | PyInt int
  | PyStr string
  | PyTuple "pyval list"
  | PyList "pyval list"
  | PyOther string string

fun py_repr :: "pyval \<Rightarrow> string" where
  "py_repr PyNone = ''None''"
| "py_repr (PyBool b) = (if b then ''True'' else ''False'')"
| "py_repr (PyInt i) = str_int i"
| "py_repr (PyStr s) = repr_str s"
| "py_repr (PyTuple xs) =
     (case xs of [x] \<Rightarrow> ''('' @ py_repr x @ '',)''
      | _ \<Rightarrow> ''('' @ join '', '' (map py_repr xs) @ '')'')"
| "py_repr (PyList xs) = ''['' @ join '', '' (map py_repr xs) @ '']''"
| "py_repr (PyOther s r) = r"

definition py_str :: "pyval \<Rightarrow> string" where
  "py_str v = (case v of PyStr s \<Rightarrow> s | PyOther s r \<Rightarrow> s | _ \<Rightarrow> py_repr v)"

subsection \<open>A parser for list, tuple, string and integer literals\<close>

text \<open>
  An executable model of \<^verbatim>\<open>ast.literal_eval\<close> on the literals that query results are
  made of: lists, tuples, quoted strings without escapes, decimal integers,
  \<^verbatim>\<open>None\<close>, \<^verbatim>\<open>True\<close> and \<^verbatim>\<open>False\<close>. \<open>None\<close> stands for the exception
  Python raises; on other literal forms (floats, escapes, adjacent strings) this parser
  also answers \<open>None\<close>. The general theorems below hold for every parser, since the
  parser is a field of the environment; this one is used at concrete inputs.
\<close>

datatype token = TOpen bool | TClose bool | TComma | TValue pyval

definition digit_val :: "char \<Rightarrow> nat" where
  "digit_val c = length (takeWhile (\<lambda>d. d \<noteq> c) ''0123456789'')"

definition int_of_digits :: "string \<Rightarrow> int" where
  "int_of_digits ds = int (foldl (\<lambda>n d. 10 * n + digit_val d) 0 ds)"

definition is_blank :: "char \<Rightarrow> bool" where
  "is_blank c = (c \<in> set [CHR '' '', CHR 0x09, CHR 0x0A, CHR 0x0C, CHR 0x0D])"

definition is_name_char :: "char \<Rightarrow> bool" where
  "is_name_char c = (c \<in> set ascii_lowercase \<or> c \<in> set ascii_uppercase \<or> is_digit c
                     \<or> c = CHR ''_'' \<or> c = CHR ''.'')"

definition valid_digits :: "string \<Rightarrow> string \<Rightarrow> bool" where
  "valid_digits ds rest =
     ((case rest of [] \<Rightarrow> True | d # _ \<Rightarrow> \<not> is_name_char d)
      \<and> (length ds = 1 \<or> hd ds \<noteq> CHR ''0'' \<or> set ds = {CHR ''0''}))"

function lex :: "string \<Rightarrow> token list option" where
  "lex [] = Some []"
| "lex (c # cs) =
     (if is_blank c then lex cs
      else if c = CHR ''['' then map_option (Cons (TOpen True)) (lex cs)
      else if c = CHR '']'' then map_option (Cons (TClose True)) (lex cs)
      else if c = CHR ''('' then map_option (Cons (TOpen False)) (lex cs)
      else if c = CHR '')'' then map_option (Cons (TClose False)) (lex cs)
      else if c = CHR '','' then map_option (Cons TComma) (lex cs)
      else if c = CHR 0x27 \<or> c = CHR 0x22 then
        (if dropWhile (\<lambda>d. d \<noteq> c) cs = []
            \<or> CHR 0x5C \<in> set (takeWhile (\<lambda>d. d \<noteq> c) cs)
            \<or> CHR 0x0A \<in> set (takeWhile (\<lambda>d. d \<noteq> c) cs)
         then None
         else map_option (Cons (TValue (PyStr (takeWhile (\<lambda>d. d \<noteq> c) cs))))
                (lex (tl (dropWhile (\<lambda>d. d \<noteq> c) cs))))
      else if is_digit c then
        (if valid_digits (c # takeWhile is_digit cs) (dropWhile is_digit cs)
         then map_option (Cons (TValue (PyInt (int_of_digits (c # takeWhile is_digit cs)))))
                (lex (dropWhile is_digit cs))
         else None)
      else if c = CHR ''-'' \<or> c = CHR ''+'' then
        (if takeWhile is_digit (dropWhile is_blank cs) \<noteq> []
            \<and> valid_digits (takeWhile is_digit (dropWhile is_blank cs))
                  (dropWhile is_digit (dropWhile is_blank cs))
         then map_option
                (Cons (TValue (PyInt ((if c = CHR ''-'' then - 1 else 1)
                   * int_of_digits (takeWhile is_digit (dropWhile is_blank cs))))))
                (lex (dropWhile is_digit (dropWhile is_blank cs)))
         else None)
      else if c # takeWhile is_name_char cs = ''None''
        then map_option (Cons (TValue PyNone)) (lex (dropWhile is_name_char cs))
      else if c # takeWhile is_name_char cs = ''True''
        then map_option (Cons (TValue (PyBool True))) (lex (dropWhile is_name_char cs))
      else if c # takeWhile is_name_char cs = ''False''
        then map_option (Cons (TValue (PyBool False))) (lex (dropWhile is_name_char cs))
      else None)"
  by pat_completeness auto
termination
proof -
  have a: "length (dropWhile P xs) < Suc (length xs)" for P and xs :: string
    by (simp add: less_Suc_eq_le length_dropWhile_le)
  have b: "length (dropWhile P (dropWhile Q xs)) < Suc (length xs)" for P Q and xs :: string
    using length_dropWhile_le[of P "dropWhile Q xs"] length_dropWhile_le[of Q xs] by simp
  have c: "length (dropWhile P xs) - Suc 0 < Suc (length xs)" for P and xs :: string
    using length_dropWhile_le[of P xs] by simp
  show ?thesis
    by (relation "measure length") (simp_all add: a b c)
qed

datatype pstate = AfterOpen | AfterValue | AfterComma

type_synonym frame = "bool \<times> pyval list \<times> pstate \<times> bool"

definition close_value :: "bool \<Rightarrow> pyval list \<Rightarrow> bool \<Rightarrow> pyval" where
  "close_value is_list items commas =
     (if is_list then PyList (rev items)
      else if \<not> commas \<and> length items = 1 then hd items
      else PyTuple (rev items))"

fun deliver :: "pyval \<Rightarrow> frame list \<times> pyval option \<Rightarrow> (frame list \<times> pyval option) option" where
  "deliver v ([], None) = Some ([], Some v)"
| "deliver v ([], Some r) = None"
| "deliver v ((k, items, ps, cm) # fs, r) =
     (if ps = AfterValue then None else Some ((k, v # items, AfterValue, cm) # fs, r))"

fun pstep :: "token \<Rightarrow> frame list \<times> pyval option \<Rightarrow> (frame list \<times> pyval option) option" where
  "pstep (TValue v) st = deliver v st"
| "pstep (TOpen k) ([], r) = (if r = None then Some ([(k, [], AfterOpen, False)], r) else None)"
| "pstep (TOpen k) ((k', items, ps, cm) # fs, r) =
     (if ps = AfterValue then None
      else Some ((k, [], AfterOpen, False) # (k', items, ps, cm) # fs, r))"
| "pstep TComma ([], r) = None"
| "pstep TComma ((k, items, ps, cm) # fs, r) =
     (if ps = AfterValue then Some ((k, items, AfterComma, True) # fs, r) else None)"
| "pstep (TClose k) ([], r) = None"
| "pstep (TClose k) ((k', items, ps, cm) # fs, r) =
     (if k = k' then deliver (close_value k items cm) (fs, r) else None)"

fun parse_tokens :: "token list \<Rightarrow> frame list \<times> pyval option \<Rightarrow> pyval option" where
  "parse_tokens [] (fs, r) = (if fs = [] then r else None)"
| "parse_tokens (t # ts) st = (case pstep t st of None \<Rightarrow> None | Some st' \<Rightarrow> parse_tokens ts st')"

definition py_literal_eval :: "string \<Rightarrow> pyval option" where
  "py_literal_eval s = (case lex s of None \<Rightarrow> None | Some ts \<Rightarrow> parse_tokens ts ([], None))"

section \<open>Capabilities and durable storage\<close>

text \<open>
  The language model, the SQL backend, the schema description and the clock are
  external; they are parameters of the model. A call that raises returns \<open>Inl\<close> with
  the exception's message. The prompt templates are fixed texts with the fields below
  interpolated, so a prompt is represented by its kind and its fields.

  Running a statement on the backend has three outcomes: the rows as text, the
  database rejecting the statement with a message, or a failure outside the database
  call.
\<close>

datatype sql_outcome = Rows string | Rejected string | Raised string

datatype prompt =
    ClassifyPrompt string string string
  | ChatPrompt string string string
  | QueryPrompt string string string string string string
  | AnswerPrompt string string string string string string

record env =
  llm :: "prompt \<Rightarrow> string + string"
  run_sql :: "string \<Rightarrow> sql_outcome"
  table_info :: string
  dialect :: string
  literal_eval :: "string \<Rightarrow> pyval option"
  isoformat_now :: "nat \<Rightarrow> string"

section \<open>Conversation memory (services/memory\_service.py)\<close>

record interaction =
  i_timestamp :: string
  i_question :: string
  i_query :: string
  i_result :: string
  i_answer :: string

record entity_info =
  e_question :: string
  e_full_result :: string
  e_answer :: string
  e_timestamp :: string

type_synonym patterns = "(string \<times> (string \<times> string) list) list"
type_synonym entities = "(string \<times> entity_info) list"

record memory_row =
  r_conversation_history :: "interaction list"
  r_question_patterns :: patterns
  r_entity_memory :: entities

text \<open>The state outside the memory objects: the rows of the durable table, whether
  the service has a connection, and the number of clock readings taken so far.\<close>

record sys =
  db_rows :: "string \<rightharpoonup> memory_row"
  db_connected :: bool
  clock :: nat

record memory =
  m_username :: string
  max_history :: int
  conversation_history :: "interaction list"
  question_patterns :: patterns
  entity_memory :: entities

definition db_get_user_memory :: "string \<Rightarrow> sys \<Rightarrow> memory_row option" where
  "db_get_user_memory u s = (if db_connected s then db_rows s u else None)"

definition db_save_user_memory ::
  "string \<Rightarrow> interaction list \<Rightarrow> patterns \<Rightarrow> entities \<Rightarrow> sys \<Rightarrow> sys" where
  "db_save_user_memory u h p e s =
     (if db_connected s
      then s\<lparr>db_rows := (db_rows s)(u \<mapsto>
             \<lparr>r_conversation_history = h, r_question_patterns = p, r_entity_memory = e\<rparr>)\<rparr>
      else s)"

definition db_clear_user_memory :: "string \<Rightarrow> sys \<Rightarrow> sys" where
  "db_clear_user_memory u s =
     (if db_connected s \<and> db_rows s u \<noteq> None
      then s\<lparr>db_rows := (db_rows s)(u \<mapsto>
             \<lparr>r_conversation_history = [], r_question_patterns = [], r_entity_memory = []\<rparr>)\<rparr>
      else s)"

definition load_from_database :: "memory \<Rightarrow> sys \<Rightarrow> memory" where
  "load_from_database m s =
     (case db_get_user_memory (m_username m) s of
        Some r \<Rightarrow> m\<lparr>conversation_history := r_conversation_history r,
                    question_patterns := r_question_patterns r,
                    entity_memory := r_entity_memory r\<rparr>
      | None \<Rightarrow> m\<lparr>conversation_history := [], question_patterns := [],
                  entity_memory := []\<rparr>)"

definition new_memory :: "string \<Rightarrow> int \<Rightarrow> sys \<Rightarrow> memory" where
  "new_memory u mh s =
     load_from_database
       \<lparr>m_username = u, max_history = mh, conversation_history = [],
        question_patterns = [], entity_memory = []\<rparr> s"

definition save_to_database :: "memory \<Rightarrow> sys \<Rightarrow> sys" where
  "save_to_database m s =
     db_save_user_memory (m_username m) (conversation_history m) (question_patterns m)
       (entity_memory m) s"

subsection \<open>Pattern and entity extraction\<close>

definition append_pattern :: "string \<Rightarrow> string \<Rightarrow> string \<Rightarrow> patterns \<Rightarrow> patterns" where
  "append_pattern key question query ps =
     AList.update key
       ((case map_of ps key of None \<Rightarrow> [] | Some l \<Rightarrow> l) @ [(question, query)]) ps"

definition common_columns :: "string list" where
  "common_columns = [''name'', ''marks'', ''class'', ''section'', ''grade'', ''email'', ''id'']"

definition extract_question_patterns :: "string \<Rightarrow> string \<Rightarrow> patterns \<Rightarrow> patterns" where
  "extract_question_patterns question query ps =
     (let question_lower = lower question;
          ps1 = (if py_in ''student'' question_lower
                 then append_pattern ''student_queries'' question query ps else ps)
      in foldl (\<lambda>p col. if py_in col question_lower
                         then append_pattern (col @ ''_queries'') question query p else p)
           ps1 common_columns)"

text \<open>The loop over the parsed rows: every non-empty tuple stores its first element,
  lower-cased, with a clock reading of its own.\<close>

fun store_entities ::
  "env \<Rightarrow> string \<Rightarrow> string \<Rightarrow> string \<Rightarrow> pyval list \<Rightarrow> entities \<times> nat \<Rightarrow> entities \<times> nat" where
  "store_entities ev question result answer [] acc = acc"
| "store_entities ev question result answer (item # items) (es, t) =
     (case item of
        PyTuple (x # xs) \<Rightarrow>
          store_entities ev question result answer items
            (AList.update (lower (py_str x))
               \<lparr>e_question = question, e_full_result = result, e_answer = answer,
                e_timestamp = isoformat_now ev t\<rparr> es, Suc t)
      | _ \<Rightarrow> store_entities ev question result answer items (es, t))"

definition extract_entities ::
  "env \<Rightarrow> string \<Rightarrow> string \<Rightarrow> string \<Rightarrow> entities \<times> nat \<Rightarrow> entities \<times> nat" where
  "extract_entities ev question result answer acc =
     (if startswith result ''['' \<and> endswith result '']''
      then (case literal_eval ev result of
              Some (PyList (x # xs)) \<Rightarrow> store_entities ev question result answer (x # xs) acc
            | _ \<Rightarrow> acc)
      else acc)"

subsection \<open>Recording an interaction\<close>

definition add_interaction ::
  "env \<Rightarrow> string \<Rightarrow> string \<Rightarrow> string \<Rightarrow> string \<Rightarrow> memory \<times> sys \<Rightarrow> memory \<times> sys" where
  "add_interaction ev question query result answer ms =
     (let m = fst ms; s = snd ms;
          interaction = \<lparr>i_timestamp = isoformat_now ev (clock s), i_question = question,
                         i_query = query, i_result = result, i_answer = answer\<rparr>;
          h = conversation_history m @ [interaction];
          h' = (if int (length h) > max_history m then slice_from (- max_history m) h else h);
          ps = extract_question_patterns question query (question_patterns m);
          (es, t) = extract_entities ev question result answer (entity_memory m, Suc (clock s));
          m' = m\<lparr>conversation_history := h', question_patterns := ps, entity_memory := es\<rparr>
      in (m', save_to_database m' (s\<lparr>clock := t\<rparr>)))"

definition clear_memory :: "memory \<times> sys \<Rightarrow> memory \<times> sys" where
  "clear_memory ms =
     (fst ms\<lparr>conversation_history := [], question_patterns := [], entity_memory := []\<rparr>,
      db_clear_user_memory (m_username (fst ms)) (snd ms))"

text \<open>A run of recorded interactions, and the interactions it creates in arrival order
  (each with the timestamp it was given).\<close>

type_synonym turn = "string \<times> string \<times> string \<times> string"

fun record_all :: "env \<Rightarrow> turn list \<Rightarrow> memory \<times> sys \<Rightarrow> memory \<times> sys" where
  "record_all ev [] ms = ms"
| "record_all ev ((q, qu, r, a) # xs) ms = record_all ev xs (add_interaction ev q qu r a ms)"

fun arrivals :: "env \<Rightarrow> turn list \<Rightarrow> memory \<times> sys \<Rightarrow> interaction list" where
  "arrivals ev [] ms = []"
| "arrivals ev ((q, qu, r, a) # xs) ms =
     \<lparr>i_timestamp = isoformat_now ev (clock (snd ms)), i_question = q, i_query = qu,
      i_result = r, i_answer = a\<rparr> # arrivals ev xs (add_interaction ev q qu r a ms)"

definition lastn :: "nat \<Rightarrow> 'a list \<Rightarrow> 'a list" where
  "lastn n xs = drop (length xs - n) xs"

subsection \<open>Resolving references\<close>

definition pronouns :: "string list" where
  "pronouns = [''her'', ''his'', ''their'', ''it'', ''she'', ''he'', ''they'']"

text \<open>The inner loop with its \<^verbatim>\<open>break\<close>: the first element of the first non-empty
  tuple, as a string.\<close>

fun first_tuple_name :: "pyval list \<Rightarrow> string option" where
  "first_tuple_name [] = None"
| "first_tuple_name (item # items) =
     (case item of PyTuple (x # xs) \<Rightarrow> Some (py_str x) | _ \<Rightarrow> first_tuple_name items)"

definition last_result_name :: "env \<Rightarrow> interaction list \<Rightarrow> string option" where
  "last_result_name ev h =
     (if h = [] then None
      else (let last_result = i_result (last h)
            in if startswith last_result ''['' \<and> endswith last_result '']''
               then (case literal_eval ev last_result of
                       Some (PyList (x # xs)) \<Rightarrow> first_tuple_name (x # xs)
                     | _ \<Rightarrow> None)
               else None))"

definition substitute_pronoun ::
  "env \<Rightarrow> interaction list \<Rightarrow> string \<Rightarrow> string \<Rightarrow> string \<Rightarrow> string" where
  "substitute_pronoun ev h question_lower resolved_question pronoun =
     (if py_in pronoun question_lower
      then (case last_result_name ev h of
              Some name \<Rightarrow> py_replace pronoun name resolved_question
            | None \<Rightarrow> resolved_question)
      else resolved_question)"

definition resolve_pronouns :: "env \<Rightarrow> memory \<Rightarrow> string \<Rightarrow> string" where
  "resolve_pronouns ev m question =
     foldl (substitute_pronoun ev (conversation_history m) (lower question)) question pronouns"

definition resolve_contextual_references :: "env \<Rightarrow> memory \<Rightarrow> string \<Rightarrow> string" where
  "resolve_contextual_references ev m question =
     (let question_lower = lower question;
          resolved_question = resolve_pronouns ev m question
      in if py_in ''what'' question_lower
            \<and> (py_in ''marks'' question_lower \<or> py_in ''grade'' question_lower)
         then (case entity_memory m of
                 [] \<Rightarrow> resolved_question
               | e # es \<Rightarrow>
                   (let entity_name = fst (max_by (\<lambda>x. e_timestamp (snd x)) e es)
                    in if \<not> list_ex (\<lambda>name. py_in name question_lower)
                              (map fst (entity_memory m))
                       then ''what are '' @ entity_name @ [CHR 0x27] @ ''s marks''
                       else resolved_question))
         else resolved_question)"

subsection \<open>Relevant context\<close>

definition interaction_id :: "interaction \<Rightarrow> string" where
  "interaction_id i = i_question i @ ''_'' @ i_timestamp i"

fun unique_by_id :: "string list \<Rightarrow> interaction list \<Rightarrow> interaction list" where
  "unique_by_id seen [] = []"
| "unique_by_id seen (i # rest) =
     (if interaction_id i \<in> set seen then unique_by_id seen rest
      else i # unique_by_id (interaction_id i # seen) rest)"

definition common_words :: "string \<Rightarrow> interaction \<Rightarrow> string set" where
  "common_words current_question_lower i =
     set (split current_question_lower) \<inter> set (split (lower (i_question i)))"

definition relevant_interactions :: "interaction list \<Rightarrow> string \<Rightarrow> interaction list" where
  "relevant_interactions h current_question =
     filter (\<lambda>i. 2 \<le> card (common_words (lower current_question) i)) h"

definition unique_relevant :: "interaction list \<Rightarrow> string \<Rightarrow> interaction list" where
  "unique_relevant h current_question =
     unique_by_id [] (slice_from (- 2) h @ relevant_interactions h current_question)"

text \<open>The interactions that are formatted: \<^verbatim>\<open>unique_relevant[-3:]\<close>.\<close>

definition context_interactions :: "interaction list \<Rightarrow> string \<Rightarrow> interaction list" where
  "context_interactions h current_question =
     slice_from (- 3) (unique_relevant h current_question)"

fun format_interactions :: "nat \<Rightarrow> interaction list \<Rightarrow> string list" where
  "format_interactions n [] = []"
| "format_interactions n (i # rest) =
     [[CHR 0x0A] @ str_nat n @ ''. Previous Question: '' @ i_question i,
      ''   SQL Query: '' @ i_query i,
      ''   Result: '' @ i_result i,
      ''   Answer Given: '' @ i_answer i] @ format_interactions (Suc n) rest"

definition context_header :: string where
  "context_header =
     ''CONVERSATION CONTEXT (use this to resolve references like 'her', 'his', 'it', etc.):''"

definition get_relevant_context :: "memory \<Rightarrow> string \<Rightarrow> string" where
  "get_relevant_context m current_question =
     (if conversation_history m = [] then []
      else if unique_relevant (conversation_history m) current_question \<noteq> []
      then join [CHR 0x0A]
             ([context_header]
              @ format_interactions 1
                  (context_interactions (conversation_history m) current_question)
              @ (if entity_memory m \<noteq> []
                 then [[CHR 0x0A] @ ''KNOWN ENTITIES: ''
                         @ py_repr (PyList (map (PyStr \<circ> fst) (entity_memory m)))]
                 else []))
      else [])"

subsection \<open>The memory manager\<close>

record world =
  user_memories :: "string \<rightharpoonup> memory"
  system :: sys

definition get_user_memory :: "string \<Rightarrow> world \<Rightarrow> memory \<times> world" where
  "get_user_memory u w =
     (case user_memories w u of
        Some m \<Rightarrow> (m, w)
      | None \<Rightarrow> (let m = new_memory u 10 (system w)
                 in (m, w\<lparr>user_memories := (user_memories w)(u \<mapsto> m)\<rparr>)))"

text \<open>\<^verbatim>\<open>memory_manager.get_user_memory(u).add_interaction(...)\<close>: the cached object is
  updated in place.\<close>

definition user_add_interaction ::
  "env \<Rightarrow> string \<Rightarrow> string \<Rightarrow> string \<Rightarrow> string \<Rightarrow> string \<Rightarrow> world \<Rightarrow> world" where
  "user_add_interaction ev u question query result answer w =
     (let (m, w1) = get_user_memory u w;
          (m', s') = add_interaction ev question query result answer (m, system w1)
      in w1\<lparr>user_memories := (user_memories w1)(u \<mapsto> m'), system := s'\<rparr>)"

definition manager_clear_user_memory :: "string \<Rightarrow> world \<Rightarrow> world" where
  "manager_clear_user_memory u w =
     (case user_memories w u of
        Some m \<Rightarrow> w\<lparr>user_memories := (user_memories w)(u := None),
                     system := snd (clear_memory (m, system w))\<rparr>
      | None \<Rightarrow> w\<lparr>system := db_clear_user_memory u (system w)\<rparr>)"

subsection \<open>Runs of the memory manager\<close>

text \<open>
  What can happen to the memory of a process: a user's memory is fetched (and loaded on
  first access), an interaction is recorded for a user, a user's memory is cleared, the
  connection to the durable store comes or goes. The reachable states are the results
  of such runs from the empty store.
\<close>

datatype memory_op =
    Fetch string
  | Record string string string string string
  | Clear string
  | Connection bool

fun apply_op :: "env \<Rightarrow> memory_op \<Rightarrow> world \<Rightarrow> world" where
  "apply_op ev (Fetch u) w = snd (get_user_memory u w)"
| "apply_op ev (Record u q qu r a) w = user_add_interaction ev u q qu r a w"
| "apply_op ev (Clear u) w = manager_clear_user_memory u w"
| "apply_op ev (Connection c) w = w\<lparr>system := (system w)\<lparr>db_connected := c\<rparr>\<rparr>"

definition run_ops :: "env \<Rightarrow> memory_op list \<Rightarrow> world \<Rightarrow> world" where
  "run_ops ev ops w = foldl (\<lambda>w' x. apply_op ev x w') w ops"

definition start_world :: world where
  "start_world =
     \<lparr>user_memories = Map.empty,
      system = \<lparr>db_rows = Map.empty, db_connected = False, clock = 0\<rparr>\<rparr>"

definition keys_lower_cased :: "entities \<Rightarrow> bool" where
  "keys_lower_cased es = list_all (\<lambda>k. lower k = k) (map fst es)"

text \<open>The invariant of the runs: the keys are lower-cased in every cached memory and
  in every stored row.\<close>

definition world_ok :: "world \<Rightarrow> bool" where
  "world_ok w \<longleftrightarrow>
     (\<forall>u m. user_memories w u = Some m \<longrightarrow> keys_lower_cased (entity_memory m))
     \<and> (\<forall>u r. db_rows (system w) u = Some r \<longrightarrow> keys_lower_cased (r_entity_memory r))"

section \<open>The workflow (services/sql\_agent.py)\<close>

text \<open>The state dictionary. The key \<^verbatim>\<open>intent\<close> is absent until classification.\<close>

record State =
  username :: string
  question :: string
  query :: string
  error :: string
  success :: bool
  result :: string
  answer :: string
  context_from_memory :: string
  resolved_question :: string
  feedback :: string
  intent :: "string option"

subsection \<open>Query post-processing\<close>

text \<open>
  \<^verbatim>\<open>re.sub(r'\s+LIMIT\s+\d+\s*$', '', query, flags=re.IGNORECASE)\<close>. A match has to
  reach the end of the string, so it is read off the reversed string: optional
  whitespace, digits, whitespace, the keyword in any case, whitespace. The leftmost
  match starts where the whitespace before the keyword starts.
\<close>

definition sub_trailing_limit :: "string \<Rightarrow> string" where
  "sub_trailing_limit sql =
     (let r1 = dropWhile is_space (rev sql);
          r2 = dropWhile is_digit r1;
          r3 = dropWhile is_space r2;
          r4 = drop 5 r3
      in if takeWhile is_digit r1 \<noteq> [] \<and> takeWhile is_space r2 \<noteq> []
            \<and> upper (take 5 r3) = ''TIMIL'' \<and> takeWhile is_space r4 \<noteq> []
         then rev (dropWhile is_space r4)
         else sql)"

text \<open>\<^verbatim>\<open>query.upper().startswith(('UPDATE', 'INSERT', 'DELETE'))\<close>.\<close>

definition starts_mutating :: "string \<Rightarrow> bool" where
  "starts_mutating q = list_ex (startswith (upper q)) [''UPDATE'', ''INSERT'', ''DELETE'']"

definition validate_and_fix_query :: "string \<Rightarrow> string" where
  "validate_and_fix_query sql =
     (let q = strip sql;
          q1 = (if starts_mutating q then sub_trailing_limit q else q)
      in py_replace [CHR 0x0A] '' '' q1)"

text \<open>The four parts of a text that \<^verbatim>\<open>\s+LIMIT\s+\d+\<close> accepts with the case ignored:
  whitespace, the keyword, whitespace, digits.\<close>

definition is_limit_tail :: "string \<Rightarrow> string \<Rightarrow> string \<Rightarrow> string \<Rightarrow> bool" where
  "is_limit_tail ws1 kw ws2 ds \<longleftrightarrow>
     ws1 \<noteq> [] \<and> list_all is_space ws1 \<and> upper kw = ''LIMIT''
     \<and> ws2 \<noteq> [] \<and> list_all is_space ws2 \<and> ds \<noteq> [] \<and> list_all is_digit ds"

text \<open>What the specification asks of the newlines: each one becomes a space.\<close>

definition newlines_to_spaces :: "string \<Rightarrow> string" where
  "newlines_to_spaces s = map (\<lambda>c. if c = CHR 0x0A then CHR '' '' else c) s"

text \<open>
  \<^verbatim>\<open>re.search(r"```sql\s+(.*?)```", text, re.DOTALL)\<close>: the group of the leftmost
  match, the text between the whitespace after the opening fence and the next fence.
\<close>

fun until_fence :: "string \<Rightarrow> string option" where
  "until_fence [] = None"
| "until_fence (c # cs) =
     (if prefix ''```'' (c # cs) then Some [] else map_option (Cons c) (until_fence cs))"

definition fence_at :: "string \<Rightarrow> string option" where
  "fence_at s =
     (if prefix ''```sql'' s \<and> takeWhile is_space (drop 6 s) \<noteq> []
      then until_fence (dropWhile is_space (drop 6 s)) else None)"

fun sql_fence :: "string \<Rightarrow> string option" where
  "sql_fence [] = None"
| "sql_fence (c # cs) =
     (case fence_at (c # cs) of Some g \<Rightarrow> Some g | None \<Rightarrow> sql_fence cs)"

subsection \<open>The nodes\<close>

definition add_memory_context :: "env \<Rightarrow> State \<Rightarrow> world \<Rightarrow> State \<times> world" where
  "add_memory_context ev st w =
     (let (user_memory, w1) = get_user_memory (username st) w
      in (st\<lparr>context_from_memory := get_relevant_context user_memory (question st),
              resolved_question := resolve_contextual_references ev user_memory (question st)\<rparr>,
          w1))"

definition classify_intent :: "env \<Rightarrow> State \<Rightarrow> string + State" where
  "classify_intent ev st =
     (case llm ev (ClassifyPrompt (context_from_memory st) (question st) (resolved_question st)) of
        Inl e \<Rightarrow> Inl e
      | Inr content \<Rightarrow>
          (let i = lower (strip content)
           in Inr (st\<lparr>intent := Some (if i = ''sql'' \<or> i = ''chat'' then i else ''chat'')\<rparr>)))"

definition basic_chat :: "env \<Rightarrow> State \<Rightarrow> world \<Rightarrow> (string + State) \<times> world" where
  "basic_chat ev st w =
     (case llm ev (ChatPrompt (context_from_memory st) (question st) (resolved_question st)) of
        Inl e \<Rightarrow> (Inl e, w)
      | Inr content \<Rightarrow>
          (let a = strip content
           in (Inr (st\<lparr>answer := a, query := [], result := []\<rparr>),
               user_add_interaction ev (username st) (question st) [] [] a w)))"

definition write_query :: "env \<Rightarrow> State \<Rightarrow> string + State" where
  "write_query ev st =
     (case llm ev (QueryPrompt (dialect ev) (table_info ev) (context_from_memory st)
                     (resolved_question st) (question st) (feedback st)) of
        Inl e \<Rightarrow> Inl e
      | Inr content \<Rightarrow>
          (let response_text = strip content;
               sql_query = (case sql_fence response_text of
                              Some g \<Rightarrow> strip g
                            | None \<Rightarrow> strip response_text)
           in Inr (st\<lparr>query := validate_and_fix_query sql_query\<rparr>)))"

text \<open>
  \<^verbatim>\<open>QuerySQLDatabaseTool(db=self.db).invoke(query)\<close>. The tool of the library runs
  the statement without letting a database error through: a rejected statement comes
  back as the text "Error: " followed by the database's message, and only a failure
  outside the database call is raised to the caller.
\<close>

definition query_tool_invoke :: "env \<Rightarrow> string \<Rightarrow> string + string" where
  "query_tool_invoke ev sql =
     (case run_sql ev sql of
        Rows r \<Rightarrow> Inr r
      | Rejected e \<Rightarrow> Inr (''Error: '' @ e)
      | Raised e \<Rightarrow> Inl e)"

definition execute_query :: "env \<Rightarrow> State \<Rightarrow> State" where
  "execute_query ev st =
     (case query_tool_invoke ev (query st) of
        Inr r \<Rightarrow> st\<lparr>result := r\<rparr>
      | Inl e \<Rightarrow> st\<lparr>result := ''Error executing query: '' @ e\<rparr>)"

definition generate_answer :: "env \<Rightarrow> State \<Rightarrow> world \<Rightarrow> (string + State) \<times> world" where
  "generate_answer ev st w =
     (case llm ev (AnswerPrompt (question st) (resolved_question st) (query st) (result st)
                     (feedback st) (context_from_memory st)) of
        Inl e \<Rightarrow> (Inl e, w)
      | Inr content \<Rightarrow>
          (let a = strip content
           in (Inr (st\<lparr>answer := a\<rparr>),
               user_add_interaction ev (username st) (question st) (query st) (result st) a w)))"

definition should_route_to_sql :: "State \<Rightarrow> string" where
  "should_route_to_sql st = (if intent st = Some ''sql'' then ''sql'' else ''chat'')"

subsection \<open>The three phases\<close>

definition initial_state :: "string \<Rightarrow> string \<Rightarrow> State" where
  "initial_state u q =
     \<lparr>username = u, question = q, query = [], error = [], success = True, result = [],
      answer = [], context_from_memory = [], resolved_question = [], feedback = [],
      intent = None\<rparr>"

definition processing_error :: "string \<Rightarrow> string \<Rightarrow> string \<Rightarrow> State" where
  "processing_error u q e =
     \<lparr>username = u, question = q, query = [], error = e, success = False, result = [],
      answer = ''Error during processing: '' @ e, context_from_memory = [],
      resolved_question = q, feedback = [], intent = None\<rparr>"

text \<open>
  The compiled graph streams \<^verbatim>\<open>add_memory_context\<close>, \<^verbatim>\<open>classify_intent\<close> and then
  \<^verbatim>\<open>basic_chat\<close> or \<^verbatim>\<open>write_query\<close>; the loop returns at the first of the last two.
\<close>

definition run_until_human_review :: "env \<Rightarrow> string \<Rightarrow> string \<Rightarrow> world \<Rightarrow> State \<times> world" where
  "run_until_human_review ev u q w =
     (let (st1, w1) = add_memory_context ev (initial_state u q) w
      in case classify_intent ev st1 of
           Inl e \<Rightarrow> (processing_error u q e, w1)
         | Inr st2 \<Rightarrow>
             if should_route_to_sql st2 = ''sql''
             then (case write_query ev st2 of
                     Inl e \<Rightarrow> (processing_error u q e, w1)
                   | Inr st3 \<Rightarrow> (st3, w1))
             else (case basic_chat ev st2 w1 of
                     (Inl e, w2) \<Rightarrow> (processing_error u q e, w2)
                   | (Inr chat_state, w2) \<Rightarrow>
                       (chat_state,
                        user_add_interaction ev u (question chat_state) [] []
                          (answer chat_state) w2)))"

definition truthy :: "string option \<Rightarrow> bool" where
  "truthy fb = (fb \<noteq> None \<and> fb \<noteq> Some [])"

definition or_empty :: "string option \<Rightarrow> string" where
  "or_empty fb = (case fb of None \<Rightarrow> [] | Some f \<Rightarrow> f)"

definition regenerate_query_with_feedback :: "env \<Rightarrow> State \<Rightarrow> string option \<Rightarrow> State" where
  "regenerate_query_with_feedback ev current_state fb =
     (let updated_question =
            (if truthy fb
             then strip (question current_state) @ '' ('' @ strip (or_empty fb) @ '')''
             else question current_state);
          updated_state =
            \<lparr>username = username current_state, question = updated_question, query = [],
             error = [], success = True, result = [], answer = [],
             context_from_memory = context_from_memory current_state,
             resolved_question = [], feedback = or_empty fb, intent = None\<rparr>
      in case write_query ev updated_state of
           Inr st \<Rightarrow> st
         | Inl e \<Rightarrow>
             \<lparr>username = username current_state, question = question current_state,
              query = [], error = e, success = False, result = [],
              answer = ''Error during regeneration: '' @ e,
              context_from_memory = context_from_memory current_state,
              resolved_question = resolved_question current_state,
              feedback = or_empty fb, intent = None\<rparr>)"

definition finalize_after_approval :: "env \<Rightarrow> State \<Rightarrow> world \<Rightarrow> State \<times> world" where
  "finalize_after_approval ev query_state w =
     (let executed_state = execute_query ev query_state
      in case generate_answer ev (executed_state\<lparr>feedback := feedback query_state\<rparr>) w of
           (Inl e, w1) \<Rightarrow>
             (\<lparr>username = username query_state, question = question query_state,
               query = query query_state, error = e, success = False, result = [],
               answer = ''Error during final execution: '' @ e,
               context_from_memory = context_from_memory query_state,
               resolved_question = resolved_question query_state,
               feedback = feedback query_state, intent = None\<rparr>, w1)
         | (Inr final_state, w1) \<Rightarrow>
             (final_state,
              user_add_interaction ev (username query_state) (question query_state)
                (query query_state) (result final_state) (answer final_state) w1))"

section \<open>The checkpoint token and the routes (api/routes.py)\<close>

text \<open>
  \<^verbatim>\<open>pickle.dumps\<close> and \<^verbatim>\<open>pickle.loads\<close> are parameters: the byte format depends on
  the interpreter, and only what a serialiser guarantees is used. Bytes are characters.
  \<^verbatim>\<open>bytes.hex\<close> and \<^verbatim>\<open>bytes.fromhex\<close> are modelled in full: two lower-case digits
  per byte; on reading, digits of either case, ASCII whitespace skipped between bytes,
  anything else an error.
\<close>

record pickle =
  dumps :: "State \<Rightarrow> string"
  loads :: "string \<Rightarrow> string + State"

definition hex_byte :: "char \<Rightarrow> string" where
  "hex_byte b = [hex_digits ! ((of_char b :: nat) div 16), hex_digits ! ((of_char b :: nat) mod 16)]"

definition hex :: "string \<Rightarrow> string" where
  "hex bs = concat (map hex_byte bs)"

definition hex_val :: "char \<Rightarrow> nat option" where
  "hex_val c = (if lower_char c \<in> set hex_digits
                then Some (length (takeWhile (\<lambda>d. d \<noteq> lower_char c) hex_digits)) else None)"

definition is_ascii_space :: "char \<Rightarrow> bool" where
  "is_ascii_space c = (c \<in> set [CHR '' '', CHR 0x09, CHR 0x0A, CHR 0x0B, CHR 0x0C, CHR 0x0D])"

fun fromhex :: "string \<Rightarrow> string option" where
  "fromhex [] = Some []"
| "fromhex [c] = (if is_ascii_space c then Some [] else None)"
| "fromhex (c # d # cs) =
     (if is_ascii_space c then fromhex (d # cs)
      else (case (hex_val c, hex_val d) of
              (Some h, Some l) \<Rightarrow> map_option (Cons (char_of (16 * h + l))) (fromhex cs)
            | _ \<Rightarrow> None))"

definition encode_state :: "pickle \<Rightarrow> State \<Rightarrow> string" where
  "encode_state pk st = hex (dumps pk st)"

definition decode_state :: "pickle \<Rightarrow> string \<Rightarrow> string + State" where
  "decode_state pk state_hex =
     (case fromhex state_hex of
        None \<Rightarrow> Inl ''non-hexadecimal number found in fromhex() arg''
      | Some state_bytes \<Rightarrow> loads pk state_bytes)"

text \<open>The responses, with the fields in the order of the response models; an
  \<^verbatim>\<open>HTTPException\<close> keeps its status code only.\<close>

datatype response =
    QueryResponse string string string "string option" string bool "string option"
  | ApprovalResponse string string string "string option" string bool "string option"
      "string option" "string option"
  | HTTPException nat

text \<open>The status 400 for an empty question is raised inside the handler's
  \<^verbatim>\<open>try\<close> block, whose \<^verbatim>\<open>except Exception\<close> clause turns it into status 500.\<close>

definition process_query ::
  "pickle \<Rightarrow> env \<Rightarrow> string \<Rightarrow> string \<Rightarrow> world \<Rightarrow> response \<times> world" where
  "process_query pk ev u q w =
     (if strip q = [] then (HTTPException 500, w)
      else (let (res, w1) = run_until_human_review ev u (lower q) w
            in if \<not> success res
               then (QueryResponse q (resolved_question res) [] (Some []) (answer res) False
                       (Some (error res)), w1)
               else if intent res = Some ''chat'' \<or> (answer res \<noteq> [] \<and> query res = [])
               then (QueryResponse (question res) (resolved_question res) [] (Some [])
                       (answer res) True None, w1)
               else (ApprovalResponse (question res) (resolved_question res) (query res) None
                       ''Query generated and pending human approval.'' True None
                       (Some (encode_state pk res))
                       (Some ''Please review and approve the query to proceed.''), w1)))"

definition approve_and_execute_query ::
  "pickle \<Rightarrow> env \<Rightarrow> string \<Rightarrow> string option \<Rightarrow> world \<Rightarrow> response \<times> world" where
  "approve_and_execute_query pk ev state_hex fb w =
     (case decode_state pk state_hex of
        Inl e \<Rightarrow> (HTTPException 500, w)
      | Inr st \<Rightarrow>
          (let st1 = (if truthy fb then st\<lparr>feedback := or_empty fb\<rparr> else st);
               (res, w1) = finalize_after_approval ev st1 w
           in (QueryResponse (question res) (resolved_question res) (query res)
                 (Some (result res)) (answer res) (success res) (Some (error res)), w1)))"

definition regenerate_route ::
  "pickle \<Rightarrow> env \<Rightarrow> string \<Rightarrow> string option \<Rightarrow> world \<Rightarrow> response \<times> world" where
  "regenerate_route pk ev state_hex fb w =
     (case decode_state pk state_hex of
        Inl e \<Rightarrow> (HTTPException 500, w)
      | Inr st \<Rightarrow>
          (let res = regenerate_query_with_feedback ev st fb
           in if \<not> success res
              then (ApprovalResponse (question res) (resolved_question res) [] (Some [])
                      (answer res) False (Some (error res)) None None, w)
              else (ApprovalResponse (question res) (resolved_question res) (query res) None
                      ''Query regenerated. You can approve or provide more feedback.'' True None
                      (Some (encode_state pk res)) (Some ''Please review the new query.''), w)))"

section \<open>A concrete environment\<close>

text \<open>
  Stand-ins for the external capabilities, used to run the model at concrete inputs:
  a language model with fixed replies, a backend that knows one query and rejects any
  other statement the way SQLite rejects one on a missing table, a clock that numbers
  its readings, and a serialiser that writes every field with its length.
\<close>

definition demo_llm :: "prompt \<Rightarrow> string + string" where
  "demo_llm p =
     (case p of
        ClassifyPrompt mc q rq \<Rightarrow> Inr (if py_in ''student'' q then ''sql'' else ''chat'')
      | ChatPrompt mc q rq \<Rightarrow> Inr ''hello there''
      | QueryPrompt d t mc rq q fb \<Rightarrow> Inr ''SELECT name, marks FROM students LIMIT 1''
      | AnswerPrompt q rq qu r fb mc \<Rightarrow>
          Inr (if startswith r ''Error'' then ''the query could not be run''
               else ''the top student is alice''))"

definition demo_run_sql :: "string \<Rightarrow> sql_outcome" where
  "demo_run_sql sql =
     (if sql = ''SELECT name, marks FROM students LIMIT 1'' then Rows ''[('alice', 95)]''
      else Rejected (''(sqlite3.OperationalError) no such table: t'' @ [CHR 0x0A]
                     @ ''[SQL: '' @ sql @ '']'' @ [CHR 0x0A]
                     @ ''(Background on this error at: https://sqlalche.me/e/20/e3q8)''))"

definition demo_env :: env where
  "demo_env =
     \<lparr>llm = demo_llm, run_sql = demo_run_sql, table_info = ''No tables found in database'',
      dialect = ''sqlite'', literal_eval = py_literal_eval,
      isoformat_now = (\<lambda>n. ''t'' @ str_nat n)\<rparr>"

definition empty_sys :: sys where
  "empty_sys = \<lparr>db_rows = Map.empty, db_connected = False, clock = 0\<rparr>"

definition empty_world :: world where
  "empty_world = \<lparr>user_memories = Map.empty, system = empty_sys\<rparr>"

definition empty_memory :: "string \<Rightarrow> int \<Rightarrow> memory" where
  "empty_memory u mh =
     \<lparr>m_username = u, max_history = mh, conversation_history = [],
      question_patterns = [], entity_memory = []\<rparr>"

definition netstring :: "string \<Rightarrow> string" where
  "netstring f = str_nat (length f) @ '':'' @ f"

fun read_fields :: "nat \<Rightarrow> string \<Rightarrow> string list option" where
  "read_fields 0 s = (if s = [] then Some [] else None)"
| "read_fields (Suc k) s =
     (case dropWhile is_digit s of
        [] \<Rightarrow> None
      | c # body \<Rightarrow>
          (if c = CHR '':'' \<and> takeWhile is_digit s \<noteq> []
              \<and> nat (int_of_digits (takeWhile is_digit s)) \<le> length body
           then map_option (Cons (take (nat (int_of_digits (takeWhile is_digit s))) body))
                  (read_fields k (drop (nat (int_of_digits (takeWhile is_digit s))) body))
           else None))"

definition demo_dumps :: "State \<Rightarrow> string" where
  "demo_dumps st =
     concat (map netstring
       [username st, question st, query st, error st, (if success st then ''1'' else ''0''),
        result st, answer st, context_from_memory st, resolved_question st, feedback st,
        (case intent st of None \<Rightarrow> ''N'' | Some i \<Rightarrow> CHR ''S'' # i)])"

definition demo_loads :: "string \<Rightarrow> string + State" where
  "demo_loads bs =
     (case read_fields 11 bs of
        Some [u, q, qu, e, sc, r, a, c, rq, fb, i] \<Rightarrow>
          Inr \<lparr>username = u, question = q, query = qu, error = e, success = (sc = ''1''),
               result = r, answer = a, context_from_memory = c, resolved_question = rq,
               feedback = fb, intent = (case i of [] \<Rightarrow> None | t # i' \<Rightarrow>
                                          if t = CHR ''S'' then Some i' else None)\<rparr>
      | _ \<Rightarrow> Inl ''unpickling error'')"

definition demo_pickle :: pickle where
  "demo_pickle = \<lparr>dumps = demo_dumps, loads = demo_loads\<rparr>"

section \<open>Verified properties\<close>

subsection \<open>Bounded history\<close>

lemma slice_from_neg: "0 < k \<Longrightarrow> slice_from (- k) xs = lastn (nat k) xs"
  by (auto simp: slice_from_def lastn_def Let_def max_def nat_diff_distrib' intro: arg_cong2[where f=drop])

lemma lastn_lastn_append: "lastn n (lastn n xs @ ys) = lastn n (xs @ ys)"
proof (cases "length xs \<le> n")
  case True
  then show ?thesis by (simp add: lastn_def)
next
  case False
  then show ?thesis
    by (cases "length ys \<le> n") (simp_all add: lastn_def add.commute)
qed

lemma length_lastn: "length (lastn n xs) = min n (length xs)"
  by (auto simp: lastn_def)

lemma add_interaction_history:
  assumes "0 < max_history m"
  shows "conversation_history (fst (add_interaction ev q qu r a (m, s))) =
         lastn (nat (max_history m))
           (conversation_history m @
            [\<lparr>i_timestamp = isoformat_now ev (clock s), i_question = q, i_query = qu,
              i_result = r, i_answer = a\<rparr>])"
  using assms
  by (auto simp: add_interaction_def Let_def slice_from_neg lastn_def split: prod.splits)

lemma add_interaction_max_history:
  "max_history (fst (add_interaction ev q qu r a ms)) = max_history (fst ms)"
  by (simp add: add_interaction_def Let_def split: prod.splits)

lemma record_all_history:
  assumes "0 < max_history (fst ms)" "xs \<noteq> []"
  shows "conversation_history (fst (record_all ev xs ms)) =
         lastn (nat (max_history (fst ms))) (conversation_history (fst ms) @ arrivals ev xs ms)"
  using assms
proof (induction ev xs ms rule: record_all.induct)
  case (1 ev ms)
  then show ?case by simp
next
  case (2 ev q qu r a xs ms)
  obtain m s where ms: "ms = (m, s)" by (cases ms)
  let ?ms' = "add_interaction ev q qu r a ms"
  let ?i = "\<lparr>i_timestamp = isoformat_now ev (clock s), i_question = q, i_query = qu,
              i_result = r, i_answer = a\<rparr>"
  have mh: "max_history (fst ?ms') = max_history (fst ms)"
    by (rule add_interaction_max_history)
  have h1: "conversation_history (fst ?ms') =
            lastn (nat (max_history m)) (conversation_history m @ [?i])"
    using 2(2) unfolding ms by (simp add: add_interaction_history)
  show ?case
  proof (cases "xs = []")
    case True
    then show ?thesis using h1 ms by simp
  next
    case False
    have "conversation_history (fst (record_all ev xs ?ms')) =
      lastn (nat (max_history (fst ?ms'))) (conversation_history (fst ?ms') @ arrivals ev xs ?ms')"
      using 2(1)[OF _ False] 2(2) mh by simp
    also have "\<dots> = lastn (nat (max_history m))
        ((conversation_history m @ [?i]) @ arrivals ev xs ?ms')"
      using mh h1 by (simp add: ms lastn_lastn_append)
    finally show ?thesis using ms by simp
  qed
qed

text \<open>
  Claim C3. After every recorded interaction the conversation history holds at most
  \<open>max_history\<close> entries, and they are exactly the last \<open>max_history\<close> of all the
  interactions that arrived (the history before the run followed by the recorded ones,
  each with the content it was recorded with), in arrival order. \<open>max_history\<close> is
  positive (its default is 10).
\<close>

theorem bounded_history:
  assumes "0 < max_history m" "xs \<noteq> []"
  shows "length (conversation_history (fst (record_all ev xs (m, s)))) \<le> nat (max_history m)
       \<and> conversation_history (fst (record_all ev xs (m, s))) =
           lastn (nat (max_history m)) (conversation_history m @ arrivals ev xs (m, s))
       \<and> length (arrivals ev xs (m, s)) = length xs
       \<and> map (\<lambda>i. (i_question i, i_query i, i_result i, i_answer i)) (arrivals ev xs (m, s)) = xs"
proof -
  have a: "length (arrivals ev xs ms) = length xs" for ms
    by (induction ev xs ms rule: arrivals.induct) simp_all
  have b: "map (\<lambda>i. (i_question i, i_query i, i_result i, i_answer i)) (arrivals ev xs ms) = xs" for ms
    by (induction ev xs ms rule: arrivals.induct) simp_all
  have c: "conversation_history (fst (record_all ev xs (m, s))) =
           lastn (nat (max_history m)) (conversation_history m @ arrivals ev xs (m, s))"
    using record_all_history[of "(m, s)" xs ev] assms by simp
  have d: "length (conversation_history (fst (record_all ev xs (m, s)))) \<le> nat (max_history m)"
    unfolding c by (simp add: length_lastn)
  show ?thesis using a b c d by blast
qed

theorem bounded_history_witness:
  "0 < max_history (empty_memory ''ann'' 2)
   \<and> length (conversation_history (fst (record_all demo_env
         [(''first'', [], [], ''a''), (''second'', [], [], ''b''), (''third'', [], [], ''c'')]
         (empty_memory ''ann'' 2, empty_sys)))) \<le> 2
   \<and> map i_question (conversation_history (fst (record_all demo_env
         [(''first'', [], [], ''a''), (''second'', [], [], ''b''), (''third'', [], [], ''c'')]
         (empty_memory ''ann'' 2, empty_sys)))) = [''second'', ''third'']"
proof -
  have h: "0 < max_history (empty_memory ''ann'' 2)"
    by (simp add: empty_memory_def)
  have n: "[(''first'', [], [], ''a''), (''second'', [], [], ''b''), (''third'', [], [], ''c'')]
           \<noteq> ([] :: turn list)"
    by simp
  have e: "map i_question (conversation_history (fst (record_all demo_env
         [(''first'', [], [], ''a''), (''second'', [], [], ''b''), (''third'', [], [], ''c'')]
         (empty_memory ''ann'' 2, empty_sys)))) = [''second'', ''third'']"
    by code_simp
  have mh: "nat (max_history (empty_memory ''ann'' 2)) = 2"
    by (simp add: empty_memory_def)
  have l: "length (conversation_history (fst (record_all demo_env
         [(''first'', [], [], ''a''), (''second'', [], [], ''b''), (''third'', [], [], ''c'')]
         (empty_memory ''ann'' 2, empty_sys)))) \<le> 2"
    using bounded_history [OF h n, of demo_env empty_sys, THEN conjunct1] unfolding mh .
  show ?thesis
    by (intro conjI) (rule h, rule l, rule e)
qed

subsection \<open>Pronoun substitution\<close>

lemma last_result_name_alice:
  assumes "conversation_history m = h @ [i]"
      and "i_result i = ''[('alice', 95)]''"
      and "literal_eval ev ''[('alice', 95)]'' = Some (PyList [PyTuple [PyStr ''alice'', PyInt 95]])"
  shows "last_result_name ev (conversation_history m) = Some ''alice''"
proof -
  have p: "startswith ''[('alice', 95)]'' ''[''" by code_simp
  have q: "endswith ''[('alice', 95)]'' '']''" by code_simp
  show ?thesis
    using assms p q by (simp add: last_result_name_def Let_def py_str_def)
qed

text \<open>
  Claim C7. When the most recent interaction of the memory has the result
  \<^verbatim>\<open>[('alice', 95)]\<close>, which parses to a list with the tuple \<^verbatim>\<open>('alice', 95)\<close>,
  the question "what is her email" resolves to "what is alice email", whatever the
  earlier history and the entity index are.
\<close>

theorem pronoun_substitution:
  assumes "conversation_history m = h @ [i]"
      and "i_result i = ''[('alice', 95)]''"
      and "literal_eval ev ''[('alice', 95)]'' = Some (PyList [PyTuple [PyStr ''alice'', PyInt 95]])"
  shows "resolve_contextual_references ev m ''what is her email'' = ''what is alice email''"
proof -
  have n: "last_result_name ev (conversation_history m) = Some ''alice''"
    using assms by (rule last_result_name_alice)
  have l: "lower ''what is her email'' = ''what is her email''" by code_simp
  have i1: "py_in ''her'' ''what is her email''" by code_simp
  have i2: "\<not> py_in ''his'' ''what is her email''" by code_simp
  have i3: "\<not> py_in ''their'' ''what is her email''" by code_simp
  have i4: "\<not> py_in ''it'' ''what is her email''" by code_simp
  have i5: "\<not> py_in ''she'' ''what is her email''" by code_simp
  have i6: "py_in ''he'' ''what is her email''" by code_simp
  have i7: "\<not> py_in ''they'' ''what is her email''" by code_simp
  have r1: "py_replace ''her'' ''alice'' ''what is her email'' = ''what is alice email''"
    by code_simp
  have r2: "py_replace ''he'' ''alice'' ''what is alice email'' = ''what is alice email''"
    by code_simp
  have w: "\<not> py_in ''marks'' ''what is her email''" "\<not> py_in ''grade'' ''what is her email''"
    by code_simp+
  have "resolve_pronouns ev m ''what is her email'' = ''what is alice email''"
    unfolding resolve_pronouns_def pronouns_def l
    by (simp add: substitute_pronoun_def n i1 i2 i3 i4 i5 i6 i7 r1 r2)
  then show ?thesis
    unfolding resolve_contextual_references_def Let_def l using w by simp
qed

theorem pronoun_substitution_witness:
  "resolve_contextual_references demo_env
     ((empty_memory ''ann'' 10)\<lparr>conversation_history :=
        [\<lparr>i_timestamp = ''t0'', i_question = ''who is the top student'',
          i_query = ''SELECT name, marks FROM students LIMIT 1'',
          i_result = ''[('alice', 95)]'', i_answer = ''the top student is alice''\<rparr>]\<rparr>)
     ''what is her email'' = ''what is alice email''"
proof -
  have p: "literal_eval demo_env ''[('alice', 95)]''
           = Some (PyList [PyTuple [PyStr ''alice'', PyInt 95]])"
    by code_simp
  let ?i = "\<lparr>i_timestamp = ''t0'', i_question = ''who is the top student'',
          i_query = ''SELECT name, marks FROM students LIMIT 1'',
          i_result = ''[('alice', 95)]'', i_answer = ''the top student is alice''\<rparr>"
  have a: "conversation_history ((empty_memory ''ann'' 10)\<lparr>conversation_history := [?i]\<rparr>)
           = [] @ [?i]"
    by simp
  have b: "i_result ?i = ''[('alice', 95)]''"
    by simp
  show ?thesis
    by (rule pronoun_substitution [OF a b p])
qed

subsection \<open>Query post-processing\<close>

lemma py_replace_newline: "py_replace [CHR 0x0A] '' '' s = newlines_to_spaces s"
  by (induction s) (auto simp: newlines_to_spaces_def)

lemma digit_not_space: "is_digit c \<Longrightarrow> \<not> is_space c"
  by (auto simp: is_digit_def is_space_def whitespace_def)

lemma upper_T_not_space: "upper_char c = CHR ''T'' \<Longrightarrow> \<not> is_space c"
  by (auto simp: is_space_def whitespace_def upper_char_def ascii_lowercase_def
      ascii_uppercase_def)

lemma takeWhile_all_then_not:
  assumes "list_all P xs" "\<not> P y"
  shows "takeWhile P (xs @ y # ys) = xs" "dropWhile P (xs @ y # ys) = y # ys"
  using assms by (induction xs) simp_all

lemma dropWhile_all_append:
  assumes "list_all P xs"
  shows "dropWhile P (xs @ ys) = dropWhile P ys" "takeWhile P (xs @ ys) = xs @ takeWhile P ys"
  using assms by (induction xs) simp_all

lemma sub_trailing_limit_match:
  assumes ws1: "ws1 \<noteq> []" "list_all is_space ws1"
      and kw: "upper kw = ''LIMIT''"
      and ws2: "ws2 \<noteq> []" "list_all is_space ws2"
      and ds: "ds \<noteq> []" "list_all is_digit ds"
  shows "sub_trailing_limit (pre @ ws1 @ kw @ ws2 @ ds) = rstrip pre"
proof -
  obtain d ds' where rds: "rev ds = d # ds'" using ds(1) by (cases "rev ds") auto
  obtain w ws2' where rws2: "rev ws2 = w # ws2'" using ws2(1) by (cases "rev ws2") auto
  obtain v ws1' where rws1: "rev ws1 = v # ws1'" using ws1(1) by (cases "rev ws1") auto
  have "length (upper kw) = 5" unfolding kw by simp
  then have lk: "length kw = 5" by (simp add: upper_def)
  then obtain k1 k2 k3 k4 k5 where kwe: "kw = [k1, k2, k3, k4, k5]"
    by (auto simp: length_Suc_conv eval_nat_numeral)
  have k5: "\<not> is_space k5" using kw kwe by (simp add: upper_def upper_T_not_space)
  have ads: "list_all is_digit (rev ds)" and aw2: "list_all is_space (rev ws2)"
    and aw1: "list_all is_space (rev ws1)"
    using ds(2) ws2(2) ws1(2) by (simp_all add: list_all_iff)
  have dd: "is_digit d" "is_space w" "is_space v"
    using ads aw2 aw1 rds rws2 rws1 by simp_all
  let ?r = "rev (pre @ ws1 @ kw @ ws2 @ ds)"
  have r: "?r = rev ds @ rev ws2 @ rev kw @ rev ws1 @ rev pre" by simp
  have r1: "dropWhile is_space ?r = ?r"
    unfolding r rds using dd(1) by (simp add: digit_not_space)
  have wnd: "\<not> is_digit w" using dd(2) digit_not_space by blast
  have t1: "takeWhile is_digit ?r = rev ds"
    and r2: "dropWhile is_digit ?r = rev ws2 @ rev kw @ rev ws1 @ rev pre"
    unfolding r rws2 using takeWhile_all_then_not[OF ads wnd] by simp_all
  have rk: "rev kw = k5 # [k4, k3, k2, k1]" using kwe by simp
  have t2: "takeWhile is_space (rev ws2 @ rev kw @ rev ws1 @ rev pre) = rev ws2"
    and r3: "dropWhile is_space (rev ws2 @ rev kw @ rev ws1 @ rev pre) = rev kw @ rev ws1 @ rev pre"
    unfolding rk using takeWhile_all_then_not[OF aw2 k5] by simp_all
  have t3: "upper (take 5 (rev kw @ rev ws1 @ rev pre)) = ''TIMIL''"
    using kw kwe by (simp add: upper_def)
  have r4: "drop 5 (rev kw @ rev ws1 @ rev pre) = rev ws1 @ rev pre"
    using lk by simp
  have t4: "takeWhile is_space (rev ws1 @ rev pre) \<noteq> []"
    unfolding rws1 using dd(3) by simp
  have r5: "dropWhile is_space (rev ws1 @ rev pre) = dropWhile is_space (rev pre)"
    using dropWhile_all_append(1)[OF aw1] by simp
  show ?thesis
    unfolding sub_trailing_limit_def Let_def r1 t1 r2 t2 r3 t3 r4 r5 rstrip_def
    using t4 ds(1) ws2(1) by simp
qed

subsection \<open>The checkpoint token\<close>

lemma hex_digits_table:
  "list_all (\<lambda>k. hex_val (hex_digits ! k) = Some k \<and> \<not> is_ascii_space (hex_digits ! k))
     [0..<16]"
  by code_simp

lemma hex_digit_props:
  assumes "k < 16"
  shows "hex_val (hex_digits ! k) = Some k" and "\<not> is_ascii_space (hex_digits ! k)"
  using assms hex_digits_table unfolding list_all_iff by simp_all

lemma fromhex_hex_byte: "fromhex (hex_byte b @ rest) = map_option (Cons b) (fromhex rest)"
proof -
  let ?n = "of_char b :: nat"
  have n: "?n < 256" by simp
  then have h: "?n div 16 < 16" and l: "?n mod 16 < 16"
    by (simp_all add: div_less_iff_less_mult)
  have c: "char_of (16 * (?n div 16) + ?n mod 16) = b" by simp
  show ?thesis
    unfolding hex_byte_def
    using hex_digit_props[OF h] hex_digit_props[OF l] c by simp
qed

lemma fromhex_hex: "fromhex (hex bs) = Some bs"
  by (induction bs) (simp_all add: hex_def fromhex_hex_byte)

text \<open>
  Claim C2. When the serialiser reads back the state it wrote, decoding the token made
  from a state (serialise, then hexadecimal) gives that state back, so the SQL text and
  the resolved question a resumption starts from are those of the paused state, and the
  approve route runs the final phase on that state (with the feedback of the request
  merged in).
\<close>

theorem checkpoint_round_trip:
  assumes "loads pk (dumps pk s) = Inr s"
  shows "decode_state pk (encode_state pk s) = Inr s
       \<and> (\<forall>s'. decode_state pk (encode_state pk s) = Inr s'
              \<longrightarrow> query s' = query s \<and> resolved_question s' = resolved_question s)
       \<and> snd (approve_and_execute_query pk ev (encode_state pk s) fb w)
           = snd (finalize_after_approval ev
                    (if truthy fb then s\<lparr>feedback := or_empty fb\<rparr> else s) w)"
proof -
  have d: "decode_state pk (encode_state pk s) = Inr s"
    using assms by (simp add: decode_state_def encode_state_def fromhex_hex)
  show ?thesis
    by (simp add: d approve_and_execute_query_def Let_def split: prod.splits)
qed

theorem checkpoint_round_trip_witness:
  "decode_state demo_pickle
     (encode_state demo_pickle
        \<lparr>username = ''ann'', question = ''top student'',
         query = ''SELECT name, marks FROM students LIMIT 1'', error = [], success = True,
         result = [], answer = [], context_from_memory = [],
         resolved_question = ''top student'', feedback = [], intent = Some ''sql''\<rparr>)
   = Inr \<lparr>username = ''ann'', question = ''top student'',
         query = ''SELECT name, marks FROM students LIMIT 1'', error = [], success = True,
         result = [], answer = [], context_from_memory = [],
         resolved_question = ''top student'', feedback = [], intent = Some ''sql''\<rparr>"
proof -
  let ?s = "\<lparr>username = ''ann'', question = ''top student'',
         query = ''SELECT name, marks FROM students LIMIT 1'', error = [], success = True,
         result = [], answer = [], context_from_memory = [],
         resolved_question = ''top student'', feedback = [], intent = Some ''sql''\<rparr>"
  have h: "loads demo_pickle (dumps demo_pickle ?s) = Inr ?s"
    by code_simp
  show ?thesis
    using checkpoint_round_trip [OF h] by (rule conjunct1)
qed

subsection \<open>Recording of completed interactions\<close>

text \<open>
  Claim C1 asks for exactly one new interaction per completing call. A start call
  classified as chat, from an empty memory, leaves two entries for the one question:
  the chat node records it and the caller records it again. An approve call does the
  same: answer synthesis records the interaction and the final phase records it again.
\<close>

theorem completing_calls_record_twice:
  "map_option (map i_question \<circ> conversation_history)
     (user_memories (snd (run_until_human_review demo_env ''ann'' ''hello'' empty_world)) ''ann'')
     = Some [''hello'', ''hello'']
   \<and> map_option (map i_question \<circ> conversation_history)
       (user_memories (snd (finalize_after_approval demo_env
          ((initial_state ''ann'' ''top student'')
             \<lparr>query := ''SELECT name, marks FROM students LIMIT 1''\<rparr>) empty_world)) ''ann'')
     = Some [''top student'', ''top student'']"
  by code_simp

subsection \<open>Regeneration with feedback\<close>

text \<open>
  Claim C4 says the new question is the checkpoint's question, a space and the feedback
  in parentheses. The code strips both texts first: on the checkpoint of the question
  "top student", the feedback " use email " gives the new question
  "top student (use email)", not "top student ( use email )".
\<close>

theorem regenerate_question_counterexample:
  "question (regenerate_query_with_feedback demo_env
               (fst (run_until_human_review demo_env ''ann'' ''top student'' empty_world))
               (Some '' use email ''))
   \<noteq> ''top student'' @ '' ('' @ '' use email '' @ '')''"
  by code_simp

text \<open>
  Claim C4, amended. For a non-empty feedback, when the one query-synthesis call (made
  with the checkpoint's memory context, an empty resolved question, the new question and
  the feedback) returns a reply, regeneration gives the state that \<open>write_query\<close> makes of
  it: its question is the stripped question of the checkpoint, a space and the stripped
  feedback in parentheses (the question, a space and the feedback in parentheses when
  neither has surrounding whitespace); memory context and user are those of the
  checkpoint; result and answer are empty. The regenerate route returns the memory
  manager and the durable rows as it found them, whatever the token and the feedback.
\<close>

theorem regenerate_with_feedback:
  assumes "fb \<noteq> []"
      and "llm ev (QueryPrompt (dialect ev) (table_info ev) (context_from_memory st) []
                     (strip (question st) @ '' ('' @ strip fb @ '')'') fb) = Inr reply"
  shows "question (regenerate_query_with_feedback ev st (Some fb))
           = strip (question st) @ '' ('' @ strip fb @ '')''
       \<and> (strip (question st) = question st \<and> strip fb = fb
            \<longrightarrow> question (regenerate_query_with_feedback ev st (Some fb))
                = question st @ '' ('' @ fb @ '')'')
       \<and> write_query ev
            \<lparr>username = username st,
             question = strip (question st) @ '' ('' @ strip fb @ '')'', query = [],
             error = [], success = True, result = [], answer = [],
             context_from_memory = context_from_memory st, resolved_question = [],
             feedback = fb, intent = None\<rparr>
           = Inr (regenerate_query_with_feedback ev st (Some fb))
       \<and> context_from_memory (regenerate_query_with_feedback ev st (Some fb))
           = context_from_memory st
       \<and> username (regenerate_query_with_feedback ev st (Some fb)) = username st
       \<and> success (regenerate_query_with_feedback ev st (Some fb))
       \<and> result (regenerate_query_with_feedback ev st (Some fb)) = []
       \<and> answer (regenerate_query_with_feedback ev st (Some fb)) = []
       \<and> snd (regenerate_route pk ev state_hex fb' w) = w"
proof -
  let ?r = "regenerate_query_with_feedback ev st (Some fb)"
  have r: "snd (regenerate_route pk ev state_hex fb' w) = w"
    by (simp add: regenerate_route_def Let_def split: sum.splits)
  have q: "question ?r = strip (question st) @ '' ('' @ strip fb @ '')''"
    and rest: "context_from_memory ?r = context_from_memory st" "username ?r = username st"
      "success ?r" "result ?r = []" "answer ?r = []"
    using assms
    by (simp_all add: regenerate_query_with_feedback_def write_query_def truthy_def
        or_empty_def Let_def)
  have wq: "write_query ev
            \<lparr>username = username st,
             question = strip (question st) @ '' ('' @ strip fb @ '')'', query = [],
             error = [], success = True, result = [], answer = [],
             context_from_memory = context_from_memory st, resolved_question = [],
             feedback = fb, intent = None\<rparr> = Inr ?r"
    using assms
    by (simp add: regenerate_query_with_feedback_def write_query_def truthy_def
        or_empty_def Let_def)
  have q': "strip (question st) = question st \<and> strip fb = fb
            \<longrightarrow> question ?r = question st @ '' ('' @ fb @ '')''"
    using q by simp
  show ?thesis
    using q q' wq rest r by blast
qed

theorem regenerate_with_feedback_witness:
  "question (regenerate_query_with_feedback demo_env
               (fst (run_until_human_review demo_env ''ann'' ''top student'' empty_world))
               (Some ''use email''))
   = ''top student (use email)''"
proof -
  let ?st = "fst (run_until_human_review demo_env ''ann'' ''top student'' empty_world)"
  have n: "''use email'' \<noteq> []" by simp
  have l: "llm demo_env (QueryPrompt (dialect demo_env) (table_info demo_env)
              (context_from_memory ?st) []
              (strip (question ?st) @ '' ('' @ strip ''use email'' @ '')'') ''use email'')
           = Inr ''SELECT name, marks FROM students LIMIT 1''"
    by code_simp
  have s: "strip (question ?st) @ '' ('' @ strip ''use email'' @ '')'' = ''top student (use email)''"
    by code_simp
  show ?thesis
    using regenerate_with_feedback [OF n l, THEN conjunct1] unfolding s .
qed

subsection \<open>Entity keys\<close>

lemma lower_char_idem: "lower_char (lower_char c) = lower_char c"
  unfolding lower_char_def ascii_uppercase_def ascii_lowercase_def
  by (simp split: option.splits)

lemma lower_idem: "lower (lower s) = lower s"
  by (simp add: lower_def lower_char_idem)

lemma keys_lower_cased_update:
  "keys_lower_cased es \<Longrightarrow> keys_lower_cased (AList.update (lower k) v es)"
  by (induction es) (auto simp: keys_lower_cased_def lower_idem)

lemma store_entities_keys:
  "keys_lower_cased (fst acc) \<Longrightarrow>
   keys_lower_cased (fst (store_entities ev q r a items acc))"
proof (induction ev q r a items acc rule: store_entities.induct)
  case (1 ev question result answer acc)
  then show ?case by simp
next
  case (2 ev question result answer item items es t)
  then show ?case
    by (auto simp: keys_lower_cased_update split: pyval.splits list.splits)
qed

lemma extract_entities_keys:
  "keys_lower_cased (fst acc) \<Longrightarrow> keys_lower_cased (fst (extract_entities ev q r a acc))"
  unfolding extract_entities_def
  by (auto simp: store_entities_keys split: option.splits pyval.splits list.splits)

lemma add_interaction_keys:
  assumes "keys_lower_cased (entity_memory m)"
  shows "keys_lower_cased (entity_memory (fst (add_interaction ev q qu r a (m, s))))"
  using extract_entities_keys[of "(entity_memory m, Suc (clock s))" ev q r a] assms
  by (auto simp: add_interaction_def Let_def split: prod.splits)

lemma add_interaction_rows:
  assumes "keys_lower_cased (entity_memory m)"
      and "\<forall>u r. db_rows s u = Some r \<longrightarrow> keys_lower_cased (r_entity_memory r)"
  shows "\<forall>u r. db_rows (snd (add_interaction ev q qu r' a (m, s))) u = Some r
               \<longrightarrow> keys_lower_cased (r_entity_memory r)"
  using extract_entities_keys[of "(entity_memory m, Suc (clock s))" ev q r' a] assms
  by (auto simp: add_interaction_def Let_def save_to_database_def db_save_user_memory_def
      split: prod.splits if_splits)

lemma get_user_memory_ok:
  assumes "world_ok w"
  shows "world_ok (snd (get_user_memory u w))"
    and "keys_lower_cased (entity_memory (fst (get_user_memory u w)))"
  using assms
  by (auto simp: world_ok_def get_user_memory_def new_memory_def load_from_database_def
      db_get_user_memory_def keys_lower_cased_def Let_def split: option.splits if_splits)

lemma user_add_interaction_ok:
  assumes "world_ok w"
  shows "world_ok (user_add_interaction ev u q qu r a w)"
proof -
  obtain m w1 where g: "get_user_memory u w = (m, w1)" by (cases "get_user_memory u w")
  obtain m' s' where ad: "add_interaction ev q qu r a (m, system w1) = (m', s')"
    by (cases "add_interaction ev q qu r a (m, system w1)")
  have w1: "world_ok w1" and m: "keys_lower_cased (entity_memory m)"
    using get_user_memory_ok[OF assms, of u] g by simp_all
  have m': "keys_lower_cased (entity_memory m')"
    using add_interaction_keys[OF m, of ev q qu r a "system w1"] ad by simp
  have s': "\<forall>u r. db_rows s' u = Some r \<longrightarrow> keys_lower_cased (r_entity_memory r)"
    using add_interaction_rows[OF m, of "system w1" ev q qu r a] w1 ad
    by (simp add: world_ok_def)
  show ?thesis
    using w1 m' s' by (simp add: user_add_interaction_def g ad world_ok_def)
qed

lemma manager_clear_ok:
  assumes "world_ok w"
  shows "world_ok (manager_clear_user_memory u w)"
  using assms
  by (auto simp: world_ok_def manager_clear_user_memory_def clear_memory_def
      db_clear_user_memory_def keys_lower_cased_def split: option.splits if_splits)

lemma apply_op_ok: "world_ok w \<Longrightarrow> world_ok (apply_op ev x w)"
proof (cases x)
  case (Fetch u)
  assume "world_ok w"
  then show ?thesis using Fetch by (simp add: get_user_memory_ok)
next
  case (Record u q qu r a)
  assume "world_ok w"
  then show ?thesis using Record by (simp add: user_add_interaction_ok)
next
  case (Clear u)
  assume "world_ok w"
  then show ?thesis using Clear by (simp add: manager_clear_ok)
next
  case (Connection c)
  assume "world_ok w"
  then show ?thesis using Connection by (simp add: world_ok_def)
qed

lemma run_ops_ok: "world_ok w \<Longrightarrow> world_ok (run_ops ev ops w)"
  unfolding run_ops_def
  by (induction ops arbitrary: w) (simp_all add: apply_op_ok)

text \<open>
  Claim C8 says that an entity key is never empty. A result row whose first element is
  the empty string gives the empty key: recording the result \<^verbatim>\<open>[('', 1)]\<close> on an
  empty memory leaves the entity index with the single key \<^verbatim>\<open>''\<close>.
\<close>

theorem entity_key_empty_counterexample:
  "map fst (entity_memory (fst (add_interaction demo_env ''who has no name''
       ''SELECT name, id FROM students'' (''[('' @ [CHR 0x27, CHR 0x27] @ '', 1)]'')
       ''one student has no name'' (empty_memory ''ann'' 10, empty_sys)))) = [[]]"
  by code_simp

text \<open>
  Claim C8, amended. In every state reached from the empty store by fetching, recording,
  clearing and connection changes, every key of every user's entity map equals its own
  lower-casing (a key is the lower-cased string form of the first element of a result
  tuple; it is empty when that string form is empty).
\<close>

theorem entity_keys_lower_cased:
  assumes "user_memories (run_ops ev ops start_world) u = Some m"
      and "k \<in> fst ` set (entity_memory m)"
  shows "lower k = k"
proof -
  have "world_ok start_world"
    by (simp add: world_ok_def start_world_def)
  then have "world_ok (run_ops ev ops start_world)"
    by (rule run_ops_ok)
  then have "keys_lower_cased (entity_memory m)"
    using assms(1) by (simp add: world_ok_def)
  then show ?thesis
    using assms(2) by (auto simp: keys_lower_cased_def list_all_iff)
qed

theorem entity_keys_lower_cased_witness:
  "user_memories (run_ops demo_env
       [Record ''ann'' ''Top Student'' ''SELECT name FROM s'' ''[(\"Alice\", 95)]'' ''Alice'']
       start_world) ''ann''
     \<noteq> None
   \<and> map fst (entity_memory (the (user_memories (run_ops demo_env
       [Record ''ann'' ''Top Student'' ''SELECT name FROM s'' ''[(\"Alice\", 95)]'' ''Alice'']
       start_world) ''ann''))) = [''alice'']
   \<and> lower ''alice'' = ''alice''"
proof -
  let ?w = "run_ops demo_env
       [Record ''ann'' ''Top Student'' ''SELECT name FROM s'' ''[(\"Alice\", 95)]'' ''Alice'']
       start_world"
  have a: "user_memories ?w ''ann'' \<noteq> None" by code_simp
  then obtain m where m: "user_memories ?w ''ann'' = Some m" by blast
  have b: "map fst (entity_memory (the (user_memories ?w ''ann''))) = [''alice'']"
    by code_simp
  then have "''alice'' \<in> fst ` set (entity_memory m)"
    using m by (metis list.set_intros(1) list.set_map option.sel)
  then have "lower ''alice'' = ''alice''"
    by (rule entity_keys_lower_cased [OF m])
  then show ?thesis using a b by blast
qed

subsection \<open>Literal replacement of pronouns\<close>

lemma py_replace_absent: "\<not> py_in p s \<Longrightarrow> py_replace p n s = s"
proof (induction p n s rule: py_replace.induct)
  case (1 old new)
  then show ?case by (auto simp: py_in_def)
next
  case (2 old new c cs)
  have ne: "old \<noteq> []" using 2(4) by (auto simp: py_in_def)
  have np: "\<not> prefix old (c # cs)"
    using 2(4) by (auto simp: py_in_def dest: prefix_imp_sublist)
  have "\<not> py_in old cs"
    using 2(4) by (auto simp: py_in_def sublist_Cons_right)
  then show ?case using 2(3) ne np by simp
qed

lemma prefix_of_longer_front:
  assumes "prefix p (xs @ ys)" "length p \<le> length xs"
  shows "prefix p xs"
  using assms by (metis prefix_append prefix_length_le prefix_order.antisym prefix_def
      append_eq_append_conv_if append_take_drop_id)

lemma py_replace_occurrence:
  assumes "p \<noteq> []" "\<not> py_in p (a @ butlast p)"
  shows "py_replace p n (a @ p @ b) = a @ n @ py_replace p n b"
  using assms(2)
proof (induction a)
  case Nil
  obtain c cs where pc: "p = c # cs" using assms(1) by (cases p) auto
  have "py_replace p n (c # cs @ b) = n @ py_replace p n (drop (length p) (c # cs @ b))"
    using assms(1) by (simp add: pc)
  then show ?case by (simp add: pc)
next
  case (Cons x a)
  have bl: "butlast p @ [last p] = p" using assms(1) by simp
  have np: "\<not> prefix p (x # a @ p @ b)"
  proof
    assume pr: "prefix p (x # a @ p @ b)"
    have "prefix p (((x # a) @ butlast p) @ (last p # b))"
      using pr bl by (metis append.assoc append_Cons append_Nil)
    moreover have "length p \<le> length ((x # a) @ butlast p)"
      using assms(1) by (simp add: Suc_leI)
    ultimately have "prefix p ((x # a) @ butlast p)"
      by (rule prefix_of_longer_front)
    then show False using Cons.prems by (auto simp: py_in_def dest: prefix_imp_sublist)
  qed
  have "\<not> py_in p (a @ butlast p)"
    using Cons.prems by (auto simp: py_in_def sublist_Cons_right)
  then have "py_replace p n (a @ p @ b) = a @ n @ py_replace p n b"
    by (rule Cons.IH)
  then show ?case using np assms(1) by simp
qed

lemma pronouns_lower: "p \<in> set pronouns \<Longrightarrow> lower p = p \<and> p \<noteq> []"
proof -
  have "list_all (\<lambda>p. lower p = p \<and> p \<noteq> []) pronouns" by code_simp
  then show "p \<in> set pronouns \<Longrightarrow> lower p = p \<and> p \<noteq> []"
    by (simp add: list_all_iff)
qed

text \<open>
  Claim C10. With the name taken from the most recent result, each pass of the pronoun
  loop whose pronoun occurs in the lower-cased question applies \<^verbatim>\<open>str.replace\<close> to
  the question as typed. An occurrence of the pronoun's letters is replaced wherever it
  stands, inside a longer word too, and the later occurrences after it as well; a
  question without an occurrence in exactly these lower-case letters comes out of the
  pass unchanged, also when the lower-cased question has one.
\<close>

theorem pronoun_replacement_is_literal:
  assumes "last_result_name ev (conversation_history m) = Some name"
  shows "resolve_pronouns ev m q
           = foldl (\<lambda>r p. if py_in p (lower q) then py_replace p name r else r) q pronouns
       \<and> (\<forall>p \<in> set pronouns. \<forall>a b. \<not> py_in p (a @ butlast p) \<longrightarrow>
            substitute_pronoun ev (conversation_history m) (lower (a @ p @ b)) (a @ p @ b) p
              = a @ name @ py_replace p name b)
       \<and> (\<forall>p s. \<not> py_in p s \<longrightarrow>
            substitute_pronoun ev (conversation_history m) (lower s) s p = s)"
proof (intro conjI ballI allI impI)
  have "substitute_pronoun ev (conversation_history m) (lower q)
          = (\<lambda>r p. if py_in p (lower q) then py_replace p name r else r)"
    by (intro ext) (simp add: substitute_pronoun_def assms)
  then show "resolve_pronouns ev m q
           = foldl (\<lambda>r p. if py_in p (lower q) then py_replace p name r else r) q pronouns"
    by (simp add: resolve_pronouns_def)
next
  fix p a b
  assume p: "p \<in> set pronouns" and a: "\<not> py_in p (a @ butlast p)"
  have lp: "lower p = p" and ne: "p \<noteq> []" using pronouns_lower[OF p] by simp_all
  have "lower (a @ p @ b) = lower a @ p @ lower b"
    using lp by (simp add: lower_def)
  then have "py_in p (lower (a @ p @ b))"
    by (simp add: py_in_def sublist_appendI)
  then show "substitute_pronoun ev (conversation_history m) (lower (a @ p @ b)) (a @ p @ b) p
              = a @ name @ py_replace p name b"
    using py_replace_occurrence[OF ne a] by (simp add: substitute_pronoun_def assms)
next
  fix p s
  assume "\<not> py_in p s"
  then show "substitute_pronoun ev (conversation_history m) (lower s) s p = s"
    by (simp add: substitute_pronoun_def assms py_replace_absent)
qed

theorem pronoun_replacement_is_literal_witness:
  "resolve_pronouns demo_env
     ((empty_memory ''ann'' 10)\<lparr>conversation_history :=
        [\<lparr>i_timestamp = ''t0'', i_question = ''who is the top student'',
          i_query = ''SELECT name, marks FROM students LIMIT 1'',
          i_result = ''[('alice', 95)]'', i_answer = ''the top student is alice''\<rparr>]\<rparr>)
     ''where is Her book'' = ''walicee is Her book''
   \<and> py_in ''her'' (lower ''where is Her book'')
   \<and> substitute_pronoun demo_env
       [\<lparr>i_timestamp = ''t0'', i_question = ''who is the top student'',
         i_query = ''SELECT name, marks FROM students LIMIT 1'',
         i_result = ''[('alice', 95)]'', i_answer = ''the top student is alice''\<rparr>]
       (lower ''Her book'') ''Her book'' ''her'' = ''Her book''
   \<and> substitute_pronoun demo_env
       [\<lparr>i_timestamp = ''t0'', i_question = ''who is the top student'',
         i_query = ''SELECT name, marks FROM students LIMIT 1'',
         i_result = ''[('alice', 95)]'', i_answer = ''the top student is alice''\<rparr>]
       (lower ''where is Her book'') ''where is Her book'' ''her'' = ''walicee is Her book''"
proof -
  let ?h = "[\<lparr>i_timestamp = ''t0'', i_question = ''who is the top student'',
          i_query = ''SELECT name, marks FROM students LIMIT 1'',
          i_result = ''[('alice', 95)]'', i_answer = ''the top student is alice''\<rparr>]"
  let ?m = "(empty_memory ''ann'' 10)\<lparr>conversation_history := ?h\<rparr>"
  have h: "conversation_history ?m = ?h" by simp
  have n: "last_result_name demo_env (conversation_history ?m) = Some ''alice''"
    unfolding h by code_simp
  note t = pronoun_replacement_is_literal [OF n]
  have f: "foldl (\<lambda>r p. if py_in p (lower ''where is Her book'')
                             then py_replace p ''alice'' r else r)
             ''where is Her book'' pronouns = ''walicee is Her book''"
    by code_simp
  have a: "resolve_pronouns demo_env ?m ''where is Her book'' = ''walicee is Her book''"
    using t [of "''where is Her book''", THEN conjunct1] unfolding f .
  have b: "py_in ''her'' (lower ''where is Her book'')" by code_simp
  have nh: "\<not> py_in ''her'' ''Her book''" by code_simp
  have c: "substitute_pronoun demo_env ?h (lower ''Her book'') ''Her book'' ''her'' = ''Her book''"
    using t [of "''x''", THEN conjunct2, THEN conjunct2, rule_format, OF nh] unfolding h .
  have pm: "''her'' \<in> set pronouns" by (simp add: pronouns_def)
  have no: "\<not> py_in ''her'' (''w'' @ butlast ''her'')" by code_simp
  have r: "py_replace ''her'' ''alice'' ''e is Her book'' = ''e is Her book''" by code_simp
  have d: "substitute_pronoun demo_env ?h (lower ''where is Her book'') ''where is Her book''
             ''her'' = ''walicee is Her book''"
    using t [of "''x''", THEN conjunct2, THEN conjunct1, rule_format, OF pm no,
             of "''e is Her book''"]
    unfolding h r by simp
  show ?thesis using a b c d by blast
qed

subsection \<open>Execution failures\<close>

text \<open>
  Claim C9. A failing execution never raises out of the executor. When the database
  rejects the statement, the result text of the state is "Error: " followed by the
  database's message; when the call fails in another way, it is
  "Error executing query: " followed by the message; when the statement runs, it is
  the rows. In each case the final phase goes on to answer synthesis with that result
  text in the prompt, and when the language model answers, the final state is the
  executed state with that answer (stripped); only a failing language model leads to
  the error state of the final phase.
\<close>

theorem execution_failure_is_answered:
  "(\<forall>msg. run_sql ev (query st) = Rejected msg
       \<longrightarrow> execute_query ev st = st\<lparr>result := ''Error: '' @ msg\<rparr>)
   \<and> (\<forall>msg. run_sql ev (query st) = Raised msg
       \<longrightarrow> execute_query ev st = st\<lparr>result := ''Error executing query: '' @ msg\<rparr>)
   \<and> (\<forall>rows. run_sql ev (query st) = Rows rows
       \<longrightarrow> execute_query ev st = st\<lparr>result := rows\<rparr>)
   \<and> (\<forall>a. llm ev (AnswerPrompt (question st) (resolved_question st) (query st)
                 (result (execute_query ev st)) (feedback st) (context_from_memory st))
            = Inr a
       \<longrightarrow> fst (finalize_after_approval ev st w) = (execute_query ev st)\<lparr>answer := strip a\<rparr>)
   \<and> (\<forall>e. llm ev (AnswerPrompt (question st) (resolved_question st) (query st)
                 (result (execute_query ev st)) (feedback st) (context_from_memory st))
            = Inl e
       \<longrightarrow> \<not> success (fst (finalize_after_approval ev st w))
         \<and> answer (fst (finalize_after_approval ev st w))
             = ''Error during final execution: '' @ e)"
proof -
  have f: "query (execute_query ev st) = query st"
    "question (execute_query ev st) = question st"
    "resolved_question (execute_query ev st) = resolved_question st"
    "context_from_memory (execute_query ev st) = context_from_memory st"
    "execute_query ev st\<lparr>feedback := feedback st\<rparr> = execute_query ev st"
    by (simp_all add: execute_query_def split: sum.splits)
  show ?thesis
    apply (intro conjI allI impI)
    subgoal by (simp add: execute_query_def query_tool_invoke_def)
    subgoal by (simp add: execute_query_def query_tool_invoke_def)
    subgoal by (simp add: execute_query_def query_tool_invoke_def)
    subgoal by (simp add: finalize_after_approval_def generate_answer_def Let_def f)
    subgoal by (simp add: finalize_after_approval_def generate_answer_def Let_def f)
    subgoal by (simp add: finalize_after_approval_def generate_answer_def Let_def f)
    done
qed

theorem execution_failure_is_answered_witness:
  "result (fst (finalize_after_approval demo_env
       ((initial_state ''ann'' ''drop it'')\<lparr>query := ''DELETE FROM t''\<rparr>) empty_world))
     = ''Error: (sqlite3.OperationalError) no such table: t'' @ [CHR 0x0A]
       @ ''[SQL: DELETE FROM t]'' @ [CHR 0x0A]
       @ ''(Background on this error at: https://sqlalche.me/e/20/e3q8)''
   \<and> answer (fst (finalize_after_approval demo_env
       ((initial_state ''ann'' ''drop it'')\<lparr>query := ''DELETE FROM t''\<rparr>) empty_world))
     = ''the query could not be run''
   \<and> result (execute_query (demo_env\<lparr>run_sql := \<lambda>sql. Raised ''database is locked''\<rparr>)
       ((initial_state ''ann'' ''drop it'')\<lparr>query := ''DELETE FROM t''\<rparr>))
     = ''Error executing query: database is locked''
   \<and> result (execute_query demo_env
       ((initial_state ''ann'' ''top student'')
          \<lparr>query := ''SELECT name, marks FROM students LIMIT 1''\<rparr>))
     = ''[('alice', 95)]''
   \<and> \<not> success (fst (finalize_after_approval
       (demo_env\<lparr>llm := \<lambda>p. Inl ''rate limit reached''\<rparr>)
       ((initial_state ''ann'' ''drop it'')\<lparr>query := ''DELETE FROM t''\<rparr>) empty_world))"
proof -
  let ?st = "(initial_state ''ann'' ''drop it'')\<lparr>query := ''DELETE FROM t''\<rparr>"
  let ?sel = "(initial_state ''ann'' ''top student'')
          \<lparr>query := ''SELECT name, marks FROM students LIMIT 1''\<rparr>"
  let ?msg = "''(sqlite3.OperationalError) no such table: t'' @ [CHR 0x0A]
       @ ''[SQL: DELETE FROM t]'' @ [CHR 0x0A]
       @ ''(Background on this error at: https://sqlalche.me/e/20/e3q8)''"
  let ?raising = "demo_env\<lparr>run_sql := \<lambda>sql. Raised ''database is locked''\<rparr>"
  let ?mute = "demo_env\<lparr>llm := \<lambda>p. Inl ''rate limit reached''\<rparr>"
  have rj: "run_sql demo_env (query ?st) = Rejected ?msg"
    by code_simp
  have ex: "execute_query demo_env ?st = ?st\<lparr>result := ''Error: '' @ ?msg\<rparr>"
    using execution_failure_is_answered [of demo_env ?st] rj by blast
  have a: "llm demo_env (AnswerPrompt (question ?st) (resolved_question ?st) (query ?st)
             (result (execute_query demo_env ?st)) (feedback ?st) (context_from_memory ?st))
           = Inr ''the query could not be run''"
    unfolding ex by code_simp
  have s: "strip ''the query could not be run'' = ''the query could not be run''"
    by code_simp
  have fin: "fst (finalize_after_approval demo_env ?st empty_world)
             = (execute_query demo_env ?st)\<lparr>answer := strip ''the query could not be run''\<rparr>"
    using execution_failure_is_answered [of demo_env ?st empty_world] a by blast
  have w1: "result (fst (finalize_after_approval demo_env ?st empty_world)) = ''Error: '' @ ?msg"
    unfolding fin ex by simp
  have w2: "answer (fst (finalize_after_approval demo_env ?st empty_world))
            = ''the query could not be run''"
    unfolding fin s by simp
  have rs: "run_sql ?raising (query ?st) = Raised ''database is locked''"
    by simp
  have w3: "result (execute_query ?raising ?st) = ''Error executing query: database is locked''"
    using execution_failure_is_answered [of ?raising ?st] rs by simp
  have rw: "run_sql demo_env (query ?sel) = Rows ''[('alice', 95)]''"
    by code_simp
  have w4: "result (execute_query demo_env ?sel) = ''[('alice', 95)]''"
    using execution_failure_is_answered [of demo_env ?sel] rw by simp
  have lm: "llm ?mute (AnswerPrompt (question ?st) (resolved_question ?st) (query ?st)
             (result (execute_query ?mute ?st)) (feedback ?st) (context_from_memory ?st))
           = Inl ''rate limit reached''"
    by simp
  have w5: "\<not> success (fst (finalize_after_approval ?mute ?st empty_world))"
    using execution_failure_is_answered [of ?mute ?st empty_world] lm by blast
  show ?thesis
    using w1 w2 w3 w4 w5 by simp
qed

subsection \<open>Trailing LIMIT clauses\<close>

lemma strip_no_trailing_space: "dropWhile is_space (rev (strip q)) = rev (strip q)"
  by (simp add: strip_def rstrip_def dropWhile_idem)

lemma sub_trailing_limit_cases:
  assumes nt: "dropWhile is_space (rev s) = rev s"
  shows "sub_trailing_limit s = s
       \<or> (\<exists>pre ws1 kw ws2 ds. s = pre @ ws1 @ kw @ ws2 @ ds
             \<and> ws1 \<noteq> [] \<and> list_all is_space ws1 \<and> upper kw = ''LIMIT''
             \<and> ws2 \<noteq> [] \<and> list_all is_space ws2 \<and> ds \<noteq> [] \<and> list_all is_digit ds)"
proof -
  define r1 where "r1 = rev s"
  define r2 where "r2 = dropWhile is_digit r1"
  define r3 where "r3 = dropWhile is_space r2"
  define r4 where "r4 = drop 5 r3"
  show ?thesis
  proof (cases "takeWhile is_digit r1 \<noteq> [] \<and> takeWhile is_space r2 \<noteq> []
                \<and> upper (take 5 r3) = ''TIMIL'' \<and> takeWhile is_space r4 \<noteq> []")
    case False
    then have "sub_trailing_limit s = s"
      unfolding sub_trailing_limit_def Let_def nt
      using r1_def r2_def r3_def r4_def by auto
    then show ?thesis by blast
  next
    case True
    let ?ds = "rev (takeWhile is_digit r1)"
    let ?ws2 = "rev (takeWhile is_space r2)"
    let ?kw = "rev (take 5 r3)"
    let ?ws1 = "rev (takeWhile is_space r4)"
    let ?pre = "rev (dropWhile is_space r4)"
    have "r1 = takeWhile is_digit r1 @ takeWhile is_space r2 @ take 5 r3
                 @ takeWhile is_space r4 @ dropWhile is_space r4"
      unfolding r2_def r3_def r4_def by simp
    then have "rev r1 = ?pre @ ?ws1 @ ?kw @ ?ws2 @ ?ds"
      by (metis append.assoc rev_append)
    then have d: "s = ?pre @ ?ws1 @ ?kw @ ?ws2 @ ?ds"
      by (simp add: r1_def)
    have k: "upper ?kw = ''LIMIT''"
    proof -
      have "upper ?kw = rev (upper (take 5 r3))" by (simp add: upper_def rev_map)
      also have "\<dots> = rev ''TIMIL''" using True by simp
      finally show ?thesis by simp
    qed
    have a: "list_all is_space ?ws1" "list_all is_space ?ws2" "list_all is_digit ?ds"
      by (auto simp: list_all_iff dest: set_takeWhileD)
    have n: "?ws1 \<noteq> []" "?ws2 \<noteq> []" "?ds \<noteq> []"
      using True by simp_all
    show ?thesis
      using d k a n by blast
  qed
qed

text \<open>
  Claim C5 says that a statement starting with UPDATE, INSERT or DELETE loses its
  trailing LIMIT clause. The clause is removed only when it ends the text: after
  "LIMIT 5;" or inside "LIMIT 2, 5" the statement is returned as it came.
\<close>

theorem limit_kept_counterexample:
  "starts_mutating (strip ''UPDATE t SET x=1 LIMIT 5;'')
   \<and> validate_and_fix_query ''UPDATE t SET x=1 LIMIT 5;'' = ''UPDATE t SET x=1 LIMIT 5;''
   \<and> starts_mutating (strip ''DELETE FROM t LIMIT 2, 5'')
   \<and> validate_and_fix_query ''DELETE FROM t LIMIT 2, 5'' = ''DELETE FROM t LIMIT 2, 5''"
  by code_simp

text \<open>
  Claim C5, amended. Post-processing is decided by the stripped query. When it does not
  start with UPDATE, INSERT or DELETE (in any case), the result is the stripped query
  with every newline turned into a space, its LIMIT clause included. When it starts
  with one of them and ends with whitespace, the keyword LIMIT (in any case),
  whitespace and digits, the result is the text before that tail, without the
  whitespace in front of the tail, with every newline turned into a space. When it
  starts with one of them and does not end in such a tail, the result is again the
  stripped query with every newline turned into a space. No result has a newline.
\<close>

theorem validate_and_fix_query_limit:
  "(\<not> starts_mutating (strip q)
      \<longrightarrow> validate_and_fix_query q = newlines_to_spaces (strip q))
   \<and> (starts_mutating (strip q) \<and> strip q = pre @ ws1 @ kw @ ws2 @ ds
        \<and> is_limit_tail ws1 kw ws2 ds
      \<longrightarrow> validate_and_fix_query q = newlines_to_spaces (rstrip pre))
   \<and> (starts_mutating (strip q)
        \<and> \<not> (\<exists>p w1 k w2 d. strip q = p @ w1 @ k @ w2 @ d \<and> is_limit_tail w1 k w2 d)
      \<longrightarrow> validate_and_fix_query q = newlines_to_spaces (strip q))
   \<and> CHR 0x0A \<notin> set (validate_and_fix_query q)"
proof (intro conjI impI)
  assume "\<not> starts_mutating (strip q)"
  then show "validate_and_fix_query q = newlines_to_spaces (strip q)"
    by (simp add: validate_and_fix_query_def Let_def py_replace_newline)
next
  assume a: "starts_mutating (strip q) \<and> strip q = pre @ ws1 @ kw @ ws2 @ ds
        \<and> is_limit_tail ws1 kw ws2 ds"
  then have "sub_trailing_limit (strip q) = rstrip pre"
    using sub_trailing_limit_match[of ws1 kw ws2 ds pre] by (simp add: is_limit_tail_def)
  moreover have "starts_mutating (strip q)" using a by blast
  ultimately show "validate_and_fix_query q = newlines_to_spaces (rstrip pre)"
    by (simp add: validate_and_fix_query_def Let_def py_replace_newline)
next
  assume a: "starts_mutating (strip q)
        \<and> \<not> (\<exists>p w1 k w2 d. strip q = p @ w1 @ k @ w2 @ d \<and> is_limit_tail w1 k w2 d)"
  then have "sub_trailing_limit (strip q) = strip q"
    using sub_trailing_limit_cases[OF strip_no_trailing_space, of q]
    unfolding is_limit_tail_def by blast
  then show "validate_and_fix_query q = newlines_to_spaces (strip q)"
    by (simp add: validate_and_fix_query_def Let_def py_replace_newline)
next
  show "CHR 0x0A \<notin> set (validate_and_fix_query q)"
    by (auto simp: validate_and_fix_query_def Let_def py_replace_newline newlines_to_spaces_def)
qed

theorem validate_and_fix_query_limit_witness:
  "validate_and_fix_query ''UPDATE t SET x=1 LIMIT 5'' = ''UPDATE t SET x=1''
   \<and> validate_and_fix_query ''SELECT a FROM t LIMIT 5'' = ''SELECT a FROM t LIMIT 5''
   \<and> validate_and_fix_query ''UPDATE t SET x=1 LIMIT 5;'' = ''UPDATE t SET x=1 LIMIT 5;''"
proof -
  have s1: "strip ''UPDATE t SET x=1 LIMIT 5'' = ''UPDATE t SET x=1'' @ '' '' @ ''LIMIT'' @ '' '' @ ''5''"
    by code_simp
  have m1: "starts_mutating (strip ''UPDATE t SET x=1 LIMIT 5'')" by code_simp
  have c1: "is_limit_tail '' '' ''LIMIT'' '' '' ''5''"
    by code_simp
  have e1: "newlines_to_spaces (rstrip ''UPDATE t SET x=1'') = ''UPDATE t SET x=1''"
    by code_simp
  have m2: "\<not> starts_mutating (strip ''SELECT a FROM t LIMIT 5'')" by code_simp
  have e2: "newlines_to_spaces (strip ''SELECT a FROM t LIMIT 5'') = ''SELECT a FROM t LIMIT 5''"
    by code_simp
  have u: "validate_and_fix_query ''UPDATE t SET x=1 LIMIT 5'' = ''UPDATE t SET x=1''"
    using validate_and_fix_query_limit
      [of "''UPDATE t SET x=1 LIMIT 5''" "''UPDATE t SET x=1''" "'' ''" "''LIMIT''" "'' ''" "''5''"]
      s1 m1 c1 e1 by simp
  have v: "validate_and_fix_query ''SELECT a FROM t LIMIT 5'' = ''SELECT a FROM t LIMIT 5''"
    using validate_and_fix_query_limit [of "''SELECT a FROM t LIMIT 5''"] m2 e2 by simp
  have m3: "starts_mutating (strip ''UPDATE t SET x=1 LIMIT 5;'')" by code_simp
  have l3: "last (strip ''UPDATE t SET x=1 LIMIT 5;'') = CHR '';''" by code_simp
  have nd: "\<not> is_digit (CHR '';'')" by code_simp
  have n3: "\<not> (\<exists>p w1 k w2 d. strip ''UPDATE t SET x=1 LIMIT 5;'' = p @ w1 @ k @ w2 @ d
                \<and> is_limit_tail w1 k w2 d)"
  proof
    assume "\<exists>p w1 k w2 d. strip ''UPDATE t SET x=1 LIMIT 5;'' = p @ w1 @ k @ w2 @ d
                \<and> is_limit_tail w1 k w2 d"
    then obtain p w1 k w2 d
      where e: "strip ''UPDATE t SET x=1 LIMIT 5;'' = p @ w1 @ k @ w2 @ d"
        and t: "is_limit_tail w1 k w2 d"
      by blast
    have dn: "d \<noteq> []" and da: "list_all is_digit d"
      using t by (simp_all add: is_limit_tail_def)
    have "last (p @ w1 @ k @ w2 @ d) = last d" using dn by simp
    then have "last d = CHR '';''" using e l3 by simp
    moreover have "is_digit (last d)" using dn da by (simp add: list_all_iff)
    ultimately show False using nd by simp
  qed
  have e3: "newlines_to_spaces (strip ''UPDATE t SET x=1 LIMIT 5;'') = ''UPDATE t SET x=1 LIMIT 5;''"
    by code_simp
  have x: "validate_and_fix_query ''UPDATE t SET x=1 LIMIT 5;'' = ''UPDATE t SET x=1 LIMIT 5;''"
    using validate_and_fix_query_limit [of "''UPDATE t SET x=1 LIMIT 5;''"] m3 n3 e3 by simp
  show ?thesis using u v x by blast
qed

subsection \<open>Relevant context\<close>

text \<open>
  Claim C6 says the narrative always has the last two interactions and every
  interaction that shares two words with the current question. The code puts the last
  two interactions first in the list of candidates and then formats the last three of
  the list: with five interactions that all share "top" and "student" with the
  question, the three oldest are formatted and the two most recent, which are both
  recent and relevant, are left out of the narrative.
\<close>

theorem narrative_drops_last_two:
  "map i_timestamp (slice_from (- 2)
     [\<lparr>i_timestamp = ''t0'', i_question = ''top student marks'', i_query = [], i_result = [],
       i_answer = []\<rparr>,
      \<lparr>i_timestamp = ''t1'', i_question = ''top student grade'', i_query = [], i_result = [],
       i_answer = []\<rparr>,
      \<lparr>i_timestamp = ''t2'', i_question = ''top student email'', i_query = [], i_result = [],
       i_answer = []\<rparr>,
      \<lparr>i_timestamp = ''t3'', i_question = ''top student class'', i_query = [], i_result = [],
       i_answer = []\<rparr>,
      \<lparr>i_timestamp = ''t4'', i_question = ''top student section'', i_query = [], i_result = [],
       i_answer = []\<rparr>]) = [''t3'', ''t4'']
   \<and> map i_timestamp (relevant_interactions
     [\<lparr>i_timestamp = ''t0'', i_question = ''top student marks'', i_query = [], i_result = [],
       i_answer = []\<rparr>,
      \<lparr>i_timestamp = ''t1'', i_question = ''top student grade'', i_query = [], i_result = [],
       i_answer = []\<rparr>,
      \<lparr>i_timestamp = ''t2'', i_question = ''top student email'', i_query = [], i_result = [],
       i_answer = []\<rparr>,
      \<lparr>i_timestamp = ''t3'', i_question = ''top student class'', i_query = [], i_result = [],
       i_answer = []\<rparr>,
      \<lparr>i_timestamp = ''t4'', i_question = ''top student section'', i_query = [], i_result = [],
       i_answer = []\<rparr>] ''the top student'') = [''t0'', ''t1'', ''t2'', ''t3'', ''t4'']
   \<and> map i_timestamp (context_interactions
     [\<lparr>i_timestamp = ''t0'', i_question = ''top student marks'', i_query = [], i_result = [],
       i_answer = []\<rparr>,
      \<lparr>i_timestamp = ''t1'', i_question = ''top student grade'', i_query = [], i_result = [],
       i_answer = []\<rparr>,
      \<lparr>i_timestamp = ''t2'', i_question = ''top student email'', i_query = [], i_result = [],
       i_answer = []\<rparr>,
      \<lparr>i_timestamp = ''t3'', i_question = ''top student class'', i_query = [], i_result = [],
       i_answer = []\<rparr>,
      \<lparr>i_timestamp = ''t4'', i_question = ''top student section'', i_query = [], i_result = [],
       i_answer = []\<rparr>] ''the top student'') = [''t0'', ''t1'', ''t2'']
   \<and> py_in ''Previous Question: top student marks''
        (get_relevant_context ((empty_memory ''ann'' 10)\<lparr>conversation_history :=
     [\<lparr>i_timestamp = ''t0'', i_question = ''top student marks'', i_query = [], i_result = [],
       i_answer = []\<rparr>,
      \<lparr>i_timestamp = ''t1'', i_question = ''top student grade'', i_query = [], i_result = [],
       i_answer = []\<rparr>,
      \<lparr>i_timestamp = ''t2'', i_question = ''top student email'', i_query = [], i_result = [],
       i_answer = []\<rparr>,
      \<lparr>i_timestamp = ''t3'', i_question = ''top student class'', i_query = [], i_result = [],
       i_answer = []\<rparr>,
      \<lparr>i_timestamp = ''t4'', i_question = ''top student section'', i_query = [], i_result = [],
       i_answer = []\<rparr>]\<rparr>) ''the top student'')
   \<and> \<not> py_in ''Previous Question: top student class''
        (get_relevant_context ((empty_memory ''ann'' 10)\<lparr>conversation_history :=
     [\<lparr>i_timestamp = ''t0'', i_question = ''top student marks'', i_query = [], i_result = [],
       i_answer = []\<rparr>,
      \<lparr>i_timestamp = ''t1'', i_question = ''top student grade'', i_query = [], i_result = [],
       i_answer = []\<rparr>,
      \<lparr>i_timestamp = ''t2'', i_question = ''top student email'', i_query = [], i_result = [],
       i_answer = []\<rparr>,
      \<lparr>i_timestamp = ''t3'', i_question = ''top student class'', i_query = [], i_result = [],
       i_answer = []\<rparr>,
      \<lparr>i_timestamp = ''t4'', i_question = ''top student section'', i_query = [], i_result = [],
       i_answer = []\<rparr>]\<rparr>) ''the top student'')
   \<and> \<not> py_in ''Previous Question: top student section''
        (get_relevant_context ((empty_memory ''ann'' 10)\<lparr>conversation_history :=
     [\<lparr>i_timestamp = ''t0'', i_question = ''top student marks'', i_query = [], i_result = [],
       i_answer = []\<rparr>,
      \<lparr>i_timestamp = ''t1'', i_question = ''top student grade'', i_query = [], i_result = [],
       i_answer = []\<rparr>,
      \<lparr>i_timestamp = ''t2'', i_question = ''top student email'', i_query = [], i_result = [],
       i_answer = []\<rparr>,
      \<lparr>i_timestamp = ''t3'', i_question = ''top student class'', i_query = [], i_result = [],
       i_answer = []\<rparr>,
      \<lparr>i_timestamp = ''t4'', i_question = ''top student section'', i_query = [], i_result = [],
       i_answer = []\<rparr>]\<rparr>) ''the top student'')"
  by code_simp

end
